theory Spec2Isabelle
  imports Complex_Main
begin

section \<open>Values of the program\<close>

text \<open>
  The module \<^verbatim>\<open>timeconvs.py\<close> keeps the parsed calibration document in the global
  \<^verbatim>\<open>TIMECONVS\<close> and reads it dynamically (\<^verbatim>\<open>timeconvs["rs_to_dvs"]\<close>,
  \<^verbatim>\<open>tc["interval"]\<close>, \<^verbatim>\<open>interval[0]\<close>). The document is therefore modelled as the
  tree that \<^verbatim>\<open>json.loads\<close> returns, and every failing access is an error value.

  Python exceptions raised by the module or by the operations it uses.
\<close>

datatype py_error =
  RuntimeError | TypeError | KeyError | IndexError | ZeroDivisionError | ValueError | OSError

text \<open>
  The result of \<^verbatim>\<open>json.loads\<close>: \<^verbatim>\<open>None\<close>, a bool, a number, a string, a list or a
  dict (an association list; a parsed dict has distinct keys). Numbers are exact reals.
\<close>

datatype json =
  JNull | JBool bool | JNum real | JStr string | JArr "json list" | JObj "(string \<times> json) list"

text \<open>
  A double: a finite value (an exact real; the sign of zero is not modelled), or one of
  \<^verbatim>\<open>inf\<close>, \<^verbatim>\<open>-inf\<close>, \<^verbatim>\<open>nan\<close>, which numpy produces where Python raises. The
  operations on doubles come twice: exact ones first, and rounded ones in the section on
  doubles with rounding.
\<close>

datatype fl = Fin real | PInf | NInf | NaN

text \<open>
  A timestamp argument or result: \<^verbatim>\<open>None\<close>, a Python float, or a numpy array of
  doubles (all operations of the module are elementwise, so an array of any shape is the
  list of its elements).
\<close>

datatype pyval = PyNone | PyFloat fl | NdArray "fl list"

text \<open>The value of \<^verbatim>\<open>indexes\<close>: a Python bool for a scalar, a boolean array for an array.\<close>

datatype mask = MBool bool | MArray "bool list"

fun py_bind :: "py_error + 'a \<Rightarrow> ('a \<Rightarrow> py_error + 'b) \<Rightarrow> py_error + 'b" where
  "py_bind (Inl e) f = Inl e"
| "py_bind (Inr v) f = f v"

subsection \<open>Python operations on the document\<close>

text \<open>Truthiness, as tested by \<^verbatim>\<open>if not TIMECONVS\<close> and \<^verbatim>\<open>if tc["inner"]\<close>.\<close>

fun truthy :: "json \<Rightarrow> bool" where
  "truthy JNull = False"
| "truthy (JBool b) = b"
| "truthy (JNum x) = (x \<noteq> 0)"
| "truthy (JStr s) = (s \<noteq> [])"
| "truthy (JArr vs) = (vs \<noteq> [])"
| "truthy (JObj kvs) = (kvs \<noteq> [])"

text \<open>\<^verbatim>\<open>d["key"]\<close>: a dict looks the key up; every other value refuses a string subscript.\<close>

fun py_getitem :: "json \<Rightarrow> string \<Rightarrow> py_error + json" where
  "py_getitem (JObj kvs) k = (case map_of kvs k of None \<Rightarrow> Inl KeyError | Some v \<Rightarrow> Inr v)"
| "py_getitem _ k = Inl TypeError"

text \<open>
  \<^verbatim>\<open>v[i]\<close> with a literal index 0 or 1: a list or a string is indexed, a dict has no
  integer key (the keys of a parsed document are strings), the rest is not subscriptable.
\<close>

fun py_index :: "json \<Rightarrow> nat \<Rightarrow> py_error + json" where
  "py_index (JArr vs) i = (if i < length vs then Inr (vs ! i) else Inl IndexError)"
| "py_index (JStr s) i = (if i < length s then Inr (JStr [s ! i]) else Inl IndexError)"
| "py_index (JObj kvs) i = Inl KeyError"
| "py_index _ i = Inl TypeError"

text \<open>\<^verbatim>\<open>for tc in v\<close>: a list gives its elements, a dict its keys, a string its characters.\<close>

fun py_iter :: "json \<Rightarrow> py_error + json list" where
  "py_iter (JArr vs) = Inr vs"
| "py_iter (JObj kvs) = Inr (map (\<lambda>kv. JStr (fst kv)) kvs)"
| "py_iter (JStr s) = Inr (map (\<lambda>c. JStr [c]) s)"
| "py_iter _ = Inl TypeError"

text \<open>
  The operand of an arithmetic operation or a comparison with a float: a number, or a
  bool (\<^verbatim>\<open>True\<close> is 1); any other value makes Python raise \<^verbatim>\<open>TypeError\<close>.
\<close>

fun as_number :: "json \<Rightarrow> real option" where
  "as_number (JNum y) = Some y"
| "as_number (JBool b) = Some (if b then 1 else 0)"
| "as_number _ = None"

subsection \<open>Exact arithmetic and comparison of a double with a number of the document\<close>

fun fl_gt :: "fl \<Rightarrow> real \<Rightarrow> bool" where
  "fl_gt (Fin x) y = (x > y)"
| "fl_gt PInf y = True"
| "fl_gt NInf y = False"
| "fl_gt NaN y = False"

fun fl_le :: "fl \<Rightarrow> real \<Rightarrow> bool" where
  "fl_le (Fin x) y = (x \<le> y)"
| "fl_le PInf y = False"
| "fl_le NInf y = True"
| "fl_le NaN y = False"

fun fl_mul :: "fl \<Rightarrow> real \<Rightarrow> fl" where
  "fl_mul (Fin x) k = Fin (x * k)"
| "fl_mul PInf k = (if k > 0 then PInf else if k < 0 then NInf else NaN)"
| "fl_mul NInf k = (if k > 0 then NInf else if k < 0 then PInf else NaN)"
| "fl_mul NaN k = NaN"

fun fl_add :: "fl \<Rightarrow> real \<Rightarrow> fl" where
  "fl_add (Fin x) b = Fin (x + b)"
| "fl_add v b = v"

fun fl_sub :: "fl \<Rightarrow> real \<Rightarrow> fl" where
  "fl_sub (Fin x) b = Fin (x - b)"
| "fl_sub v b = v"

text \<open>
  Division as numpy does it on an array: a zero divisor gives \<^verbatim>\<open>inf\<close>, \<^verbatim>\<open>-inf\<close> or
  \<^verbatim>\<open>nan\<close> (and a warning), never an exception.
\<close>

fun fl_div :: "fl \<Rightarrow> real \<Rightarrow> fl" where
  "fl_div (Fin x) s =
     (if s = 0 then (if x > 0 then PInf else if x < 0 then NInf else NaN) else Fin (x / s))"
| "fl_div PInf s = (if s \<ge> 0 then PInf else NInf)"
| "fl_div NInf s = (if s \<ge> 0 then NInf else PInf)"
| "fl_div NaN s = NaN"

text \<open>
  \<^verbatim>\<open>ts > v\<close> and \<^verbatim>\<open>ts <= v\<close>. A float against \<^verbatim>\<open>None\<close> (or any non-number) raises
  \<^verbatim>\<open>TypeError\<close>; an array against \<^verbatim>\<open>None\<close> compares element by element, so it raises
  as soon as there is an element. A string, list or dict where the calibration format has
  a number or \<^verbatim>\<open>null\<close> is outside that format: for an array, what numpy does with it
  (broadcasting a list) is not reproduced, and the model answers \<^verbatim>\<open>TypeError\<close> as the
  scalar operation does.
\<close>

fun py_cmp :: "(fl \<Rightarrow> real \<Rightarrow> bool) \<Rightarrow> pyval \<Rightarrow> json \<Rightarrow> py_error + mask" where
  "py_cmp rel PyNone v = Inl TypeError"
| "py_cmp rel (PyFloat x) v =
     (case as_number v of None \<Rightarrow> Inl TypeError | Some y \<Rightarrow> Inr (MBool (rel x y)))"
| "py_cmp rel (NdArray xs) v =
     (case as_number v of
        Some y \<Rightarrow> Inr (MArray (map (\<lambda>x. rel x y) xs))
      | None \<Rightarrow> (if v = JNull \<and> xs = [] then Inr (MArray []) else Inl TypeError))"

text \<open>\<^verbatim>\<open>a & b\<close> on two bools or two boolean arrays (a bool broadcasts over an array).\<close>

fun mask_and :: "mask \<Rightarrow> mask \<Rightarrow> mask" where
  "mask_and (MBool a) (MBool b) = MBool (a \<and> b)"
| "mask_and (MArray as) (MArray bs) = MArray (map (\<lambda>ab. fst ab \<and> snd ab) (zip as bs))"
| "mask_and (MBool a) (MArray bs) = MArray (map (\<lambda>b. a \<and> b) bs)"
| "mask_and (MArray as) (MBool b) = MArray (map (\<lambda>a. a \<and> b) as)"

text \<open>
  \<^verbatim>\<open>ts * v\<close>, \<^verbatim>\<open>ts + v\<close>, \<^verbatim>\<open>ts - v\<close>: elementwise on an array, with the same
  treatment of an operand that is not a number.
\<close>

fun py_arith :: "(fl \<Rightarrow> real \<Rightarrow> fl) \<Rightarrow> pyval \<Rightarrow> json \<Rightarrow> py_error + pyval" where
  "py_arith f PyNone v = Inl TypeError"
| "py_arith f (PyFloat x) v =
     (case as_number v of None \<Rightarrow> Inl TypeError | Some y \<Rightarrow> Inr (PyFloat (f x y)))"
| "py_arith f (NdArray xs) v =
     (case as_number v of
        Some y \<Rightarrow> Inr (NdArray (map (\<lambda>x. f x y) xs))
      | None \<Rightarrow> (if v = JNull \<and> xs = [] then Inr (NdArray []) else Inl TypeError))"

text \<open>
  \<^verbatim>\<open>ts / v\<close>: Python raises \<^verbatim>\<open>ZeroDivisionError\<close> when a float is divided by zero;
  numpy divides an array elementwise and does not raise.
\<close>

fun py_div :: "pyval \<Rightarrow> json \<Rightarrow> py_error + pyval" where
  "py_div PyNone v = Inl TypeError"
| "py_div (PyFloat x) v =
     (case as_number v of
        None \<Rightarrow> Inl TypeError
      | Some y \<Rightarrow> (if y = 0 then Inl ZeroDivisionError else Inr (PyFloat (fl_div x y))))"
| "py_div (NdArray xs) v =
     (case as_number v of
        Some y \<Rightarrow> Inr (NdArray (map (\<lambda>x. fl_div x y) xs))
      | None \<Rightarrow> (if v = JNull \<and> xs = [] then Inr (NdArray []) else Inl TypeError))"

text \<open>\<^verbatim>\<open>a[indexes]\<close>: the elements of \<^verbatim>\<open>a\<close> where the mask is true, in order.\<close>

fun np_select :: "fl list \<Rightarrow> bool list \<Rightarrow> fl list" where
  "np_select (x # xs) (m # ms) = (if m then x # np_select xs ms else np_select xs ms)"
| "np_select xs ms = []"

text \<open>
  \<^verbatim>\<open>a[indexes] = vs\<close>: the positions of \<^verbatim>\<open>a\<close> where the mask is true take the values
  \<^verbatim>\<open>vs\<close> in order; the other positions keep their value.
\<close>

fun np_put :: "fl list \<Rightarrow> bool list \<Rightarrow> fl list \<Rightarrow> fl list" where
  "np_put (d # ds) (m # ms) vs =
     (if m then (case vs of [] \<Rightarrow> d # ds | v # vs' \<Rightarrow> v # np_put ds ms vs')
      else d # np_put ds ms vs)"
| "np_put ds ms vs = ds"

section \<open>The calibration store\<close>

text \<open>
  The global \<^verbatim>\<open>TIMECONVS\<close> is the state: a \<^typ>\<open>json\<close> value, \<^verbatim>\<open>None\<close> before any
  load. \<^verbatim>\<open>json.loads\<close> and the file system are library code: they are parameters. A
  failing load raises before the assignment, so the store keeps its value.
\<close>

definition TIMECONVS_initial :: json where
  "TIMECONVS_initial = JNull"

definition load_from_json_string ::
  "(string \<Rightarrow> py_error + json) \<Rightarrow> string \<Rightarrow> json \<Rightarrow> (py_error + unit) \<times> json" where
  "load_from_json_string loads json_string TIMECONVS =
     (case loads json_string of
        Inl e \<Rightarrow> (Inl e, TIMECONVS)
      | Inr doc \<Rightarrow> (Inr (), doc))"

definition load_from_file ::
  "(string \<Rightarrow> py_error + string) \<Rightarrow> (string \<Rightarrow> py_error + json) \<Rightarrow> string \<Rightarrow> json
     \<Rightarrow> (py_error + unit) \<times> json" where
  "load_from_file read_file loads filename TIMECONVS =
     (case read_file filename of
        Inl e \<Rightarrow> (Inl e, TIMECONVS)
      | Inr contents \<Rightarrow> load_from_json_string loads contents TIMECONVS)"

section \<open>Conversions between sensors\<close>

text \<open>
  The membership test of one rule \<^verbatim>\<open>tc\<close>, the value of \<^verbatim>\<open>indexes\<close>:
  \<^verbatim>\<open>
  interval = tc["interval"]
  if tc["inner"]:
      indexes = (rs_ts > interval[0]) & (rs_ts <= interval[1])
  elif interval[0] is None:
      indexes = (rs_ts <= interval[1])
  elif interval[1] is None:
      indexes = (rs_ts > interval[0])
  else:
      raise RuntimeError
  \<close>
\<close>

definition rule_indexes :: "json \<Rightarrow> pyval \<Rightarrow> py_error + mask" where
  "rule_indexes tc ts =
     py_bind (py_getitem tc ''interval'') (\<lambda>interval.
     py_bind (py_getitem tc ''inner'') (\<lambda>inner.
       if truthy inner then
         py_bind (py_index interval 0) (\<lambda>i0.
         py_bind (py_cmp fl_gt ts i0) (\<lambda>above.
         py_bind (py_index interval 1) (\<lambda>i1.
         py_bind (py_cmp fl_le ts i1) (\<lambda>below.
           Inr (mask_and above below)))))
       else
         py_bind (py_index interval 0) (\<lambda>i0.
           if i0 = JNull then
             py_bind (py_index interval 1) (\<lambda>i1. py_cmp fl_le ts i1)
           else
             py_bind (py_index interval 1) (\<lambda>i1.
               if i1 = JNull then py_cmp fl_gt ts i0
               else Inl RuntimeError))))"

text \<open>
  The rest of the loop body, with \<^verbatim>\<open>out\<close> the output so far:
  \<^verbatim>\<open>
  if is_numpy_array:
      dvs_ts[indexes] = rs_ts[indexes] * tc["conv_k"] + tc["conv_b"]
  elif indexes:
      dvs_ts = rs_ts * tc["conv_k"] + tc["conv_b"]
  \<close>
  The scalar branch reads the coefficients only when the rule matches. For an array the
  mask is an array and the output is the array of zeros or what an earlier rule made of
  it, so the two remaining cases of \<open>rule_step\<close> below do not occur.
\<close>

definition affine :: "json \<Rightarrow> pyval \<Rightarrow> py_error + pyval" where
  "affine tc v =
     py_bind (py_getitem tc ''conv_k'') (\<lambda>k.
     py_bind (py_arith fl_mul v k) (\<lambda>scaled.
     py_bind (py_getitem tc ''conv_b'') (\<lambda>b.
       py_arith fl_add scaled b)))"

definition rule_step :: "json \<Rightarrow> pyval \<Rightarrow> pyval \<Rightarrow> py_error + pyval" where
  "rule_step tc ts out =
     py_bind (rule_indexes tc ts) (\<lambda>indexes.
       case ts of
         NdArray xs \<Rightarrow>
           (case (indexes, out) of
              (MArray ms, NdArray ds) \<Rightarrow>
                py_bind (affine tc (NdArray (np_select xs ms))) (\<lambda>vals.
                  case vals of
                    NdArray vs \<Rightarrow> Inr (NdArray (np_put ds ms vs))
                  | _ \<Rightarrow> Inl TypeError)
            | _ \<Rightarrow> Inl TypeError)
       | _ \<Rightarrow>
           (if indexes = MBool True then affine tc ts else Inr out))"

text \<open>The \<^verbatim>\<open>for\<close> loop over the rules: no \<^verbatim>\<open>break\<close>, every rule is visited.\<close>

fun rule_loop :: "json list \<Rightarrow> pyval \<Rightarrow> pyval \<Rightarrow> py_error + pyval" where
  "rule_loop [] ts out = Inr out"
| "rule_loop (tc # tcs) ts out =
     py_bind (rule_step tc ts out) (\<lambda>out'. rule_loop tcs ts out')"

text \<open>
  The four conversions have the same body, up to the key of the rule table and the names
  of the variables:
  \<^verbatim>\<open>
  if not TIMECONVS:
      raise RuntimeError
  timeconvs = TIMECONVS
  is_numpy_array = (type(rs_ts) is np.ndarray)
  if is_numpy_array:
      dvs_ts = np.full_like(rs_ts, 0)
  else:
      dvs_ts = None
  for tc in timeconvs["rs_to_dvs"]:
      ...
  return dvs_ts
  \<close>
\<close>

definition full_like_or_none :: "pyval \<Rightarrow> pyval" where
  "full_like_or_none ts =
     (case ts of NdArray xs \<Rightarrow> NdArray (replicate (length xs) (Fin 0)) | _ \<Rightarrow> PyNone)"

definition convert_between :: "string \<Rightarrow> json \<Rightarrow> pyval \<Rightarrow> py_error + pyval" where
  "convert_between key TIMECONVS ts =
     (if \<not> truthy TIMECONVS then Inl RuntimeError
      else
        py_bind (py_getitem TIMECONVS key) (\<lambda>table.
        py_bind (py_iter table) (\<lambda>tcs.
          rule_loop tcs ts (full_like_or_none ts))))"

definition convert_rs_to_dvs :: "json \<Rightarrow> pyval \<Rightarrow> py_error + pyval" where
  "convert_rs_to_dvs TIMECONVS rs_ts = convert_between ''rs_to_dvs'' TIMECONVS rs_ts"

definition convert_lidar_to_dvs :: "json \<Rightarrow> pyval \<Rightarrow> py_error + pyval" where
  "convert_lidar_to_dvs TIMECONVS lidar_ts = convert_between ''lidar_to_dvs'' TIMECONVS lidar_ts"

definition convert_dvs_to_rs :: "json \<Rightarrow> pyval \<Rightarrow> py_error + pyval" where
  "convert_dvs_to_rs TIMECONVS dvs_ts = convert_between ''dvs_to_rs'' TIMECONVS dvs_ts"

definition convert_dvs_to_lidar :: "json \<Rightarrow> pyval \<Rightarrow> py_error + pyval" where
  "convert_dvs_to_lidar TIMECONVS dvs_ts = convert_between ''dvs_to_lidar'' TIMECONVS dvs_ts"

section \<open>Conversions between native and relative timestamps\<close>

text \<open>
  \<^verbatim>\<open>return ts * timeconvs[scale] - timeconvs[offset]\<close> and
  \<^verbatim>\<open>return (ts + timeconvs[offset]) / timeconvs[scale]\<close>, after the same guard.
\<close>

definition native_to_relative :: "string \<Rightarrow> string \<Rightarrow> json \<Rightarrow> pyval \<Rightarrow> py_error + pyval" where
  "native_to_relative scale_key offset_key TIMECONVS ts =
     (if \<not> truthy TIMECONVS then Inl RuntimeError
      else
        py_bind (py_getitem TIMECONVS scale_key) (\<lambda>scale.
        py_bind (py_arith fl_mul ts scale) (\<lambda>scaled.
        py_bind (py_getitem TIMECONVS offset_key) (\<lambda>offset.
          py_arith fl_sub scaled offset))))"

definition relative_to_native :: "string \<Rightarrow> string \<Rightarrow> json \<Rightarrow> pyval \<Rightarrow> py_error + pyval" where
  "relative_to_native scale_key offset_key TIMECONVS ts =
     (if \<not> truthy TIMECONVS then Inl RuntimeError
      else
        py_bind (py_getitem TIMECONVS offset_key) (\<lambda>offset.
        py_bind (py_arith fl_add ts offset) (\<lambda>shifted.
        py_bind (py_getitem TIMECONVS scale_key) (\<lambda>scale.
          py_div shifted scale))))"

definition dvs_native_to_relative :: "json \<Rightarrow> pyval \<Rightarrow> py_error + pyval" where
  "dvs_native_to_relative = native_to_relative ''dvs_timestamp_scale'' ''dvs_offset_s''"

definition dvs_relative_to_native :: "json \<Rightarrow> pyval \<Rightarrow> py_error + pyval" where
  "dvs_relative_to_native = relative_to_native ''dvs_timestamp_scale'' ''dvs_offset_s''"

definition lidar_native_to_relative :: "json \<Rightarrow> pyval \<Rightarrow> py_error + pyval" where
  "lidar_native_to_relative = native_to_relative ''lidar_timestamp_scale'' ''lidar_offset_s''"

definition lidar_relative_to_native :: "json \<Rightarrow> pyval \<Rightarrow> py_error + pyval" where
  "lidar_relative_to_native = relative_to_native ''lidar_timestamp_scale'' ''lidar_offset_s''"

definition rs_native_to_relative :: "json \<Rightarrow> pyval \<Rightarrow> py_error + pyval" where
  "rs_native_to_relative = native_to_relative ''rs_timestamp_scale'' ''rs_offset_s''"

definition rs_relative_to_native :: "json \<Rightarrow> pyval \<Rightarrow> py_error + pyval" where
  "rs_relative_to_native = relative_to_native ''rs_timestamp_scale'' ''rs_offset_s''"

section \<open>Calibration tables\<close>

text \<open>
  A calibration document in the format of the data set: four lists of rules
  \<^verbatim>\<open>{"interval": [lo, hi], "inner": bool, "conv_k": float, "conv_b": float}\<close>, where an
  absent end point is \<^verbatim>\<open>null\<close>, and six numbers. \<open>table_json\<close> is the tree that
  \<^verbatim>\<open>json.loads\<close> returns for such a document.
\<close>

record interval_rule =
  rule_lo :: "real option"
  rule_hi :: "real option"
  rule_inner :: bool
  rule_k :: real
  rule_b :: real

record calibration =
  tab_rs_to_dvs :: "interval_rule list"
  tab_lidar_to_dvs :: "interval_rule list"
  tab_dvs_to_rs :: "interval_rule list"
  tab_dvs_to_lidar :: "interval_rule list"
  dvs_scale :: real
  dvs_offset :: real
  lidar_scale :: real
  lidar_offset :: real
  rs_scale :: real
  rs_offset :: real

fun endpoint_json :: "real option \<Rightarrow> json" where
  "endpoint_json None = JNull"
| "endpoint_json (Some x) = JNum x"

definition rule_json :: "interval_rule \<Rightarrow> json" where
  "rule_json r =
     JObj [(''interval'', JArr [endpoint_json (rule_lo r), endpoint_json (rule_hi r)]),
           (''inner'', JBool (rule_inner r)),
           (''conv_k'', JNum (rule_k r)),
           (''conv_b'', JNum (rule_b r))]"

definition table_json :: "calibration \<Rightarrow> json" where
  "table_json T =
     JObj [(''rs_to_dvs'', JArr (map rule_json (tab_rs_to_dvs T))),
           (''lidar_to_dvs'', JArr (map rule_json (tab_lidar_to_dvs T))),
           (''dvs_to_rs'', JArr (map rule_json (tab_dvs_to_rs T))),
           (''dvs_to_lidar'', JArr (map rule_json (tab_dvs_to_lidar T))),
           (''dvs_timestamp_scale'', JNum (dvs_scale T)),
           (''dvs_offset_s'', JNum (dvs_offset T)),
           (''lidar_timestamp_scale'', JNum (lidar_scale T)),
           (''lidar_offset_s'', JNum (lidar_offset T)),
           (''rs_timestamp_scale'', JNum (rs_scale T)),
           (''rs_offset_s'', JNum (rs_offset T))]"

text \<open>
  A rule is well formed when its end points fit its flag: both present for an inner
  rule, exactly one present otherwise.
\<close>

definition rule_ok :: "interval_rule \<Rightarrow> bool" where
  "rule_ok r =
     (if rule_inner r then rule_lo r \<noteq> None \<and> rule_hi r \<noteq> None
      else (rule_lo r = None) \<noteq> (rule_hi r = None))"

text \<open>
  The membership test in the words of the specification: \<open>lo < t \<le> hi\<close> for an inner
  rule, \<open>t \<le> hi\<close> when \<open>lo\<close> is absent, \<open>t > lo\<close> when \<open>hi\<close> is absent.
\<close>

definition rule_matches :: "interval_rule \<Rightarrow> fl \<Rightarrow> bool" where
  "rule_matches r t =
     (case (rule_lo r, rule_hi r) of
        (Some lo, Some hi) \<Rightarrow> rule_inner r \<and> fl_gt t lo \<and> fl_le t hi
      | (None, Some hi) \<Rightarrow> \<not> rule_inner r \<and> fl_le t hi
      | (Some lo, None) \<Rightarrow> \<not> rule_inner r \<and> fl_gt t lo
      | (None, None) \<Rightarrow> False)"

definition rule_value :: "interval_rule \<Rightarrow> fl \<Rightarrow> fl" where
  "rule_value r t = fl_add (fl_mul t (rule_k r)) (rule_b r)"

definition first_match :: "interval_rule list \<Rightarrow> fl \<Rightarrow> interval_rule option" where
  "first_match rs t = find (\<lambda>r. rule_matches r t) rs"

definition last_match :: "interval_rule list \<Rightarrow> fl \<Rightarrow> interval_rule option" where
  "last_match rs t = find (\<lambda>r. rule_matches r t) (rev rs)"

text \<open>The ten conversion functions of the module, each a function of the store and its argument.\<close>

definition conversions :: "(json \<Rightarrow> pyval \<Rightarrow> py_error + pyval) list" where
  "conversions =
     [convert_rs_to_dvs, convert_lidar_to_dvs, convert_dvs_to_rs, convert_dvs_to_lidar,
      dvs_native_to_relative, dvs_relative_to_native,
      lidar_native_to_relative, lidar_relative_to_native,
      rs_native_to_relative, rs_relative_to_native]"

text \<open>A call succeeds when it returns a value instead of raising.\<close>

definition succeeds :: "py_error + 'a \<Rightarrow> bool" where
  "succeeds r = (case r of Inl e \<Rightarrow> False | Inr v \<Rightarrow> True)"

text \<open>
  A valid table: every rule of the four lists is well formed and no time stamp scale is
  zero.
\<close>

definition valid_table :: "calibration \<Rightarrow> bool" where
  "valid_table T =
     (list_all rule_ok (tab_rs_to_dvs T) \<and> list_all rule_ok (tab_lidar_to_dvs T) \<and>
      list_all rule_ok (tab_dvs_to_rs T) \<and> list_all rule_ok (tab_dvs_to_lidar T) \<and>
      dvs_scale T \<noteq> 0 \<and> lidar_scale T \<noteq> 0 \<and> rs_scale T \<noteq> 0)"

subsection \<open>Example tables\<close>

text \<open>
  The two rules of the end-to-end scenario: \<open>t \<le> 10\<close> maps to \<open>2 t + 1\<close>, \<open>t > 10\<close> to
  \<open>3 t - 5\<close>.
\<close>

definition scenario_rules :: "interval_rule list" where
  "scenario_rules =
     [\<lparr>rule_lo = None, rule_hi = Some 10, rule_inner = False, rule_k = 2, rule_b = 1\<rparr>,
      \<lparr>rule_lo = Some 10, rule_hi = None, rule_inner = False, rule_k = 3, rule_b = - 5\<rparr>]"

definition scenario_table :: calibration where
  "scenario_table =
     \<lparr>tab_rs_to_dvs = scenario_rules, tab_lidar_to_dvs = scenario_rules,
      tab_dvs_to_rs = scenario_rules, tab_dvs_to_lidar = scenario_rules,
      dvs_scale = 1 / 1000000, dvs_offset = 3,
      lidar_scale = 1 / 1000000000, lidar_offset = 5,
      rs_scale = 1 / 1000, rs_offset = 7\<rparr>"

text \<open>Two well-formed rules that overlap on \<open>t \<le> 10\<close>; neither matches above 20.\<close>

definition overlap_rules :: "interval_rule list" where
  "overlap_rules =
     [\<lparr>rule_lo = None, rule_hi = Some 10, rule_inner = False, rule_k = 2, rule_b = 1\<rparr>,
      \<lparr>rule_lo = None, rule_hi = Some 20, rule_inner = False, rule_k = 3, rule_b = - 5\<rparr>]"

text \<open>Two malformed rules: the flag is false with no end point, and with both.\<close>

definition both_absent_rule :: interval_rule where
  "both_absent_rule =
     \<lparr>rule_lo = None, rule_hi = None, rule_inner = False, rule_k = 2, rule_b = 1\<rparr>"

definition both_present_rule :: interval_rule where
  "both_present_rule =
     \<lparr>rule_lo = Some 1, rule_hi = Some 2, rule_inner = False, rule_k = 2, rule_b = 1\<rparr>"

section \<open>Doubles with rounding\<close>

text \<open>
  The arithmetic above is exact. That is how far the conversions between sensors need it:
  which rule matches does not depend on rounding. The round trip between native and
  relative time stamps does: each of its four operations returns the double nearest to
  the exact result. This section models that rounding, for the two bodies
  \<^verbatim>\<open>ts * timeconvs[scale] - timeconvs[offset]\<close> and
  \<^verbatim>\<open>(ts + timeconvs[offset]) / timeconvs[scale]\<close>.

  Rounding to the nearest integer, ties to the even one.
\<close>

definition round_half_even :: "real \<Rightarrow> int" where
  "round_half_even y =
     (let n = \<lfloor>y\<rfloor>; d = y - of_int n
      in if d < 1 / 2 then n else if 1 / 2 < d then n + 1 else if even n then n else n + 1)"

text \<open>
  The binary exponent of a positive real: \<open>2 ^ ilog2 x \<le> x < 2 ^ (ilog2 x + 1)\<close>.
\<close>

function ilog2 :: "real \<Rightarrow> int" where
  "ilog2 x =
     (if x \<le> 0 then 0
      else if 2 \<le> x then ilog2 (x / 2) + 1
      else if x < 1 then ilog2 (x * 2) - 1
      else 0)"
  by pat_completeness auto
termination
proof (relation "measure (\<lambda>x. if 1 \<le> x then nat \<lceil>x\<rceil> else nat \<lceil>1 / x\<rceil> + 2)")
  show "wf (measure (\<lambda>x::real. if 1 \<le> x then nat \<lceil>x\<rceil> else nat \<lceil>1 / x\<rceil> + 2))"
    by simp
next
  have halve: "\<lceil>y / 2\<rceil> < \<lceil>y\<rceil>" if "2 \<le> y" for y :: real
  proof -
    have "\<lceil>y / 2\<rceil> \<le> \<lceil>y - 1\<rceil>" using that by (intro ceiling_mono) linarith
    then show ?thesis by simp
  qed
  {
    fix x :: real
    assume x: "\<not> x \<le> 0" "2 \<le> x"
    have "0 < \<lceil>x\<rceil>" using x by linarith
    with halve [OF x(2)] x
    show "(x / 2, x) \<in> measure (\<lambda>x. if 1 \<le> x then nat \<lceil>x\<rceil> else nat \<lceil>1 / x\<rceil> + 2)"
      by simp
  next
    fix x :: real
    assume x: "\<not> x \<le> 0" "\<not> 2 \<le> x" "x < 1"
    show "(x * 2, x) \<in> measure (\<lambda>x. if 1 \<le> x then nat \<lceil>x\<rceil> else nat \<lceil>1 / x\<rceil> + 2)"
    proof (cases "1 \<le> x * 2")
      case True
      have "\<lceil>x * 2\<rceil> \<le> 2" using x by (simp add: ceiling_le_iff)
      moreover have "1 < 1 / x" using x by simp
      then have "2 \<le> \<lceil>1 / x\<rceil>" by linarith
      ultimately show ?thesis using True x by (simp; linarith)
    next
      case False
      then have "2 \<le> 1 / x" using x by (simp add: field_simps)
      from halve [OF this] have "\<lceil>1 / (x * 2)\<rceil> < \<lceil>1 / x\<rceil>" by (simp add: field_simps)
      moreover have "0 < \<lceil>1 / x\<rceil>" using \<open>2 \<le> 1 / x\<close> by linarith
      ultimately show ?thesis using False x by simp
    qed
  }
qed

declare ilog2.simps [simp del]


text \<open>
  The double nearest to a real (IEEE 754 binary64, round to nearest, ties to even): 53
  significant bits, so the spacing at \<open>x\<close> is \<open>2 ^ (ilog2 \<bar>x\<bar> - 52)\<close>, and never less
  than \<open>2 ^ -1074\<close>, the spacing of the subnormal numbers; a result of magnitude
  \<open>2 ^ 1024\<close> overflows to an infinity. The sign of zero is not modelled.
\<close>

definition round_double :: "real \<Rightarrow> fl" where
  "round_double x =
     (if x = 0 then Fin 0
      else
        let q = 2 powi (max (ilog2 \<bar>x\<bar> - 52) (- 1074));
            y = of_int (round_half_even (x / q)) * q
        in if 2 ^ 1024 \<le> \<bar>y\<bar> then (if 0 < x then PInf else NInf) else Fin y)"


text \<open>
  The four operations on doubles: the exact result, rounded. The operand from the table
  and the argument are doubles already (\<^verbatim>\<open>json.loads\<close> and the caller made them
  so). Infinities and \<^verbatim>\<open>nan\<close> behave as in the exact operations.
\<close>

fun dbl_mul :: "fl \<Rightarrow> real \<Rightarrow> fl" where
  "dbl_mul (Fin x) k = round_double (x * k)"
| "dbl_mul v k = fl_mul v k"

fun dbl_add :: "fl \<Rightarrow> real \<Rightarrow> fl" where
  "dbl_add (Fin x) b = round_double (x + b)"
| "dbl_add v b = fl_add v b"

fun dbl_sub :: "fl \<Rightarrow> real \<Rightarrow> fl" where
  "dbl_sub (Fin x) b = round_double (x - b)"
| "dbl_sub v b = fl_sub v b"

fun dbl_div :: "fl \<Rightarrow> real \<Rightarrow> fl" where
  "dbl_div (Fin x) s = (if s = 0 then fl_div (Fin x) s else round_double (x / s))"
| "dbl_div v s = fl_div v s"

fun py_div_double :: "pyval \<Rightarrow> json \<Rightarrow> py_error + pyval" where
  "py_div_double PyNone v = Inl TypeError"
| "py_div_double (PyFloat x) v =
     (case as_number v of
        None \<Rightarrow> Inl TypeError
      | Some y \<Rightarrow> (if y = 0 then Inl ZeroDivisionError else Inr (PyFloat (dbl_div x y))))"
| "py_div_double (NdArray xs) v =
     (case as_number v of
        Some y \<Rightarrow> Inr (NdArray (map (\<lambda>x. dbl_div x y) xs))
      | None \<Rightarrow> (if v = JNull \<and> xs = [] then Inr (NdArray []) else Inl TypeError))"

text \<open>The two bodies again, with the rounded operations in place of the exact ones.\<close>

definition native_to_relative_double ::
  "string \<Rightarrow> string \<Rightarrow> json \<Rightarrow> pyval \<Rightarrow> py_error + pyval" where
  "native_to_relative_double scale_key offset_key TIMECONVS ts =
     (if \<not> truthy TIMECONVS then Inl RuntimeError
      else
        py_bind (py_getitem TIMECONVS scale_key) (\<lambda>scale.
        py_bind (py_arith dbl_mul ts scale) (\<lambda>scaled.
        py_bind (py_getitem TIMECONVS offset_key) (\<lambda>offset.
          py_arith dbl_sub scaled offset))))"

definition relative_to_native_double ::
  "string \<Rightarrow> string \<Rightarrow> json \<Rightarrow> pyval \<Rightarrow> py_error + pyval" where
  "relative_to_native_double scale_key offset_key TIMECONVS ts =
     (if \<not> truthy TIMECONVS then Inl RuntimeError
      else
        py_bind (py_getitem TIMECONVS offset_key) (\<lambda>offset.
        py_bind (py_arith dbl_add ts offset) (\<lambda>shifted.
        py_bind (py_getitem TIMECONVS scale_key) (\<lambda>scale.
          py_div_double shifted scale))))"

definition dvs_native_to_relative_double :: "json \<Rightarrow> pyval \<Rightarrow> py_error + pyval" where
  "dvs_native_to_relative_double =
     native_to_relative_double ''dvs_timestamp_scale'' ''dvs_offset_s''"

definition dvs_relative_to_native_double :: "json \<Rightarrow> pyval \<Rightarrow> py_error + pyval" where
  "dvs_relative_to_native_double =
     relative_to_native_double ''dvs_timestamp_scale'' ''dvs_offset_s''"

definition lidar_native_to_relative_double :: "json \<Rightarrow> pyval \<Rightarrow> py_error + pyval" where
  "lidar_native_to_relative_double =
     native_to_relative_double ''lidar_timestamp_scale'' ''lidar_offset_s''"

definition lidar_relative_to_native_double :: "json \<Rightarrow> pyval \<Rightarrow> py_error + pyval" where
  "lidar_relative_to_native_double =
     relative_to_native_double ''lidar_timestamp_scale'' ''lidar_offset_s''"

definition rs_native_to_relative_double :: "json \<Rightarrow> pyval \<Rightarrow> py_error + pyval" where
  "rs_native_to_relative_double =
     native_to_relative_double ''rs_timestamp_scale'' ''rs_offset_s''"

definition rs_relative_to_native_double :: "json \<Rightarrow> pyval \<Rightarrow> py_error + pyval" where
  "rs_relative_to_native_double =
     relative_to_native_double ''rs_timestamp_scale'' ''rs_offset_s''"

text \<open>
  What the round trip computes for one timestamp, and the distance from the timestamp
  that rounding allows: a relative part, and an absolute part for results in the
  subnormal range.
\<close>

definition roundtrip_double :: "real \<Rightarrow> real \<Rightarrow> fl \<Rightarrow> fl" where
  "roundtrip_double scale offset ts =
     dbl_div (dbl_add (dbl_sub (dbl_mul ts scale) offset) offset) scale"

definition roundtrip_tolerance :: "real \<Rightarrow> real \<Rightarrow> real \<Rightarrow> real" where
  "roundtrip_tolerance scale offset ts =
     15 * 2 powi (- 53) * (\<bar>ts\<bar> + \<bar>offset / scale\<bar>) + 2 powi (- 1075) * (14 / \<bar>scale\<bar> + 1)"


text \<open>
  Two tables of doubles. In the first the offset \<open>2 ^ 54\<close> absorbs the timestamp 1. The
  second is the scenario table with the double nearest to \<^verbatim>\<open>1e-6\<close> as the scale of the
  event camera.
\<close>

definition cancelling_table :: calibration where
  "cancelling_table = scenario_table\<lparr>dvs_scale := 1, dvs_offset := 2 ^ 54\<rparr>"

definition double_scenario_table :: calibration where
  "double_scenario_table = scenario_table\<lparr>dvs_scale := 4722366482869645 / 2 ^ 72\<rparr>"


section \<open>Reading a calibration table\<close>

lemma rule_json_interval:
  "py_getitem (rule_json r) ''interval''
     = Inr (JArr [endpoint_json (rule_lo r), endpoint_json (rule_hi r)])"
  by (simp add: rule_json_def)

lemma rule_json_inner: "py_getitem (rule_json r) ''inner'' = Inr (JBool (rule_inner r))"
  by (simp add: rule_json_def)

lemma rule_json_conv_k: "py_getitem (rule_json r) ''conv_k'' = Inr (JNum (rule_k r))"
  by (simp add: rule_json_def)

lemma rule_json_conv_b: "py_getitem (rule_json r) ''conv_b'' = Inr (JNum (rule_b r))"
  by (simp add: rule_json_def)

lemmas rule_json_fields = rule_json_interval rule_json_inner rule_json_conv_k rule_json_conv_b

lemma table_json_truthy: "truthy (table_json T)"
  by (simp add: table_json_def)

lemma table_json_rs_to_dvs:
  "py_getitem (table_json T) ''rs_to_dvs'' = Inr (JArr (map rule_json (tab_rs_to_dvs T)))"
  by (simp add: table_json_def)

lemma table_json_lidar_to_dvs:
  "py_getitem (table_json T) ''lidar_to_dvs'' = Inr (JArr (map rule_json (tab_lidar_to_dvs T)))"
  by (simp add: table_json_def)

lemma table_json_dvs_to_rs:
  "py_getitem (table_json T) ''dvs_to_rs'' = Inr (JArr (map rule_json (tab_dvs_to_rs T)))"
  by (simp add: table_json_def)

lemma table_json_dvs_to_lidar:
  "py_getitem (table_json T) ''dvs_to_lidar'' = Inr (JArr (map rule_json (tab_dvs_to_lidar T)))"
  by (simp add: table_json_def)

lemmas table_json_tables =
  table_json_rs_to_dvs table_json_lidar_to_dvs table_json_dvs_to_rs table_json_dvs_to_lidar

lemma table_json_scalars:
  "py_getitem (table_json T) ''dvs_timestamp_scale'' = Inr (JNum (dvs_scale T))"
  "py_getitem (table_json T) ''dvs_offset_s'' = Inr (JNum (dvs_offset T))"
  "py_getitem (table_json T) ''lidar_timestamp_scale'' = Inr (JNum (lidar_scale T))"
  "py_getitem (table_json T) ''lidar_offset_s'' = Inr (JNum (lidar_offset T))"
  "py_getitem (table_json T) ''rs_timestamp_scale'' = Inr (JNum (rs_scale T))"
  "py_getitem (table_json T) ''rs_offset_s'' = Inr (JNum (rs_offset T))"
  by (simp_all add: table_json_def)

lemmas convert_defs =
  convert_rs_to_dvs_def convert_lidar_to_dvs_def convert_dvs_to_rs_def convert_dvs_to_lidar_def

lemmas affine_defs =
  dvs_native_to_relative_def dvs_relative_to_native_def
  lidar_native_to_relative_def lidar_relative_to_native_def
  rs_native_to_relative_def rs_relative_to_native_def

section \<open>One rule\<close>

lemma rule_indexes_scalar:
  "rule_ok r \<Longrightarrow> rule_indexes (rule_json r) (PyFloat t) = Inr (MBool (rule_matches r t))"
  by (cases "rule_lo r"; cases "rule_hi r"; cases "rule_inner r")
     (simp_all add: rule_indexes_def rule_json_fields rule_ok_def rule_matches_def)

lemma rule_indexes_array:
  "rule_ok r \<Longrightarrow>
   rule_indexes (rule_json r) (NdArray xs) = Inr (MArray (map (\<lambda>x. rule_matches r x) xs))"
  by (cases "rule_lo r"; cases "rule_hi r"; cases "rule_inner r")
     (simp_all add: rule_indexes_def rule_json_fields rule_ok_def rule_matches_def
        zip_map_map zip_same_conv_map)

lemma rule_indexes_malformed:
  "\<not> rule_inner r \<Longrightarrow> rule_lo r \<noteq> None \<Longrightarrow> rule_hi r \<noteq> None \<Longrightarrow>
   rule_indexes (rule_json r) ts = Inl RuntimeError"
  by (cases "rule_lo r"; cases "rule_hi r") (simp_all add: rule_indexes_def rule_json_fields)

lemma affine_scalar: "affine (rule_json r) (PyFloat t) = Inr (PyFloat (rule_value r t))"
  by (simp add: affine_def rule_json_fields rule_value_def)

lemma affine_array:
  "affine (rule_json r) (NdArray xs) = Inr (NdArray (map (\<lambda>x. rule_value r x) xs))"
  by (simp add: affine_def rule_json_fields rule_value_def)

text \<open>Writing through a mask what was read through it changes the masked positions only.\<close>

lemma np_put_select:
  "length ds = length xs \<Longrightarrow>
   np_put ds (map P xs) (map f (np_select xs (map P xs))) =
   map (\<lambda>xd. if P (fst xd) then f (fst xd) else snd xd) (zip xs ds)"
proof (induction xs arbitrary: ds)
  case Nil
  then show ?case by simp
next
  case (Cons x xs)
  then obtain d ds' where ds: "ds = d # ds'" by (cases ds) auto
  with Cons show ?case by simp
qed

lemma rule_step_scalar:
  "rule_ok r \<Longrightarrow>
   rule_step (rule_json r) (PyFloat t) out =
   Inr (if rule_matches r t then PyFloat (rule_value r t) else out)"
  by (simp add: rule_step_def rule_indexes_scalar affine_scalar)

lemma rule_step_array:
  "rule_ok r \<Longrightarrow> length ds = length xs \<Longrightarrow>
   rule_step (rule_json r) (NdArray xs) (NdArray ds) =
   Inr (NdArray (map (\<lambda>xd. if rule_matches r (fst xd) then rule_value r (fst xd) else snd xd)
                  (zip xs ds)))"
  by (simp add: rule_step_def rule_indexes_array affine_array np_put_select)

lemma rule_step_malformed:
  "\<not> rule_inner r \<Longrightarrow> rule_lo r \<noteq> None \<Longrightarrow> rule_hi r \<noteq> None \<Longrightarrow>
   rule_step (rule_json r) ts out = Inl RuntimeError"
  by (simp add: rule_step_def rule_indexes_malformed)

section \<open>The loop over the rules\<close>

lemma find_append:
  "find P (xs @ ys) = (case find P xs of None \<Rightarrow> find P ys | Some x \<Rightarrow> Some x)"
  by (induction xs) simp_all

lemma last_match_Nil: "last_match [] t = None"
  by (simp add: last_match_def)

lemma last_match_Cons:
  "last_match (r # rs) t =
     (case last_match rs t of
        None \<Rightarrow> (if rule_matches r t then Some r else None)
      | Some r' \<Rightarrow> Some r')"
  by (simp add: last_match_def find_append split: option.split)

lemma last_match_None: "(last_match rs t = None) = (\<not> list_ex (\<lambda>r. rule_matches r t) rs)"
  by (auto simp: last_match_def find_None_iff list_ex_iff)

lemma rule_loop_append:
  "rule_loop (tcs @ tcs') ts out = py_bind (rule_loop tcs ts out) (\<lambda>out'. rule_loop tcs' ts out')"
proof (induction tcs arbitrary: out)
  case Nil
  show ?case by simp
next
  case (Cons tc tcs)
  show ?case by (cases "rule_step tc ts out") (simp_all add: Cons.IH)
qed

text \<open>
  A scalar: each matching rule replaces the output, so the last matching rule decides; the
  output stays as it was when no rule matches.
\<close>

lemma rule_loop_scalar:
  "list_all rule_ok rs \<Longrightarrow>
   rule_loop (map rule_json rs) (PyFloat t) out =
   Inr (case last_match rs t of None \<Rightarrow> out | Some r \<Rightarrow> PyFloat (rule_value r t))"
proof (induction rs arbitrary: out)
  case Nil
  show ?case by (simp add: last_match_Nil)
next
  case (Cons r rs)
  then have first: "rule_ok r" and rest: "list_all rule_ok rs" by simp_all
  show ?case
    by (simp add: rule_step_scalar [OF first] Cons.IH [OF rest] last_match_Cons
             split: option.split)
qed

lemma zip_map_zip:
  "length ds = length xs \<Longrightarrow>
   zip xs (map g (zip xs ds)) = map (\<lambda>xd. (fst xd, g xd)) (zip xs ds)"
  by (induction ds xs rule: list_induct2) simp_all

text \<open>An array: the same, position by position.\<close>

lemma rule_loop_array:
  "list_all rule_ok rs \<Longrightarrow> length ds = length xs \<Longrightarrow>
   rule_loop (map rule_json rs) (NdArray xs) (NdArray ds) =
   Inr (NdArray (map (\<lambda>xd. case last_match rs (fst xd) of
                               None \<Rightarrow> snd xd
                             | Some r \<Rightarrow> rule_value r (fst xd)) (zip xs ds)))"
proof (induction rs arbitrary: ds)
  case Nil
  then show ?case by (simp add: last_match_Nil)
next
  case (Cons r rs)
  then have first: "rule_ok r" and rest: "list_all rule_ok rs" by simp_all
  let ?g = "\<lambda>xd. if rule_matches r (fst xd) then rule_value r (fst xd) else snd xd"
  have len: "length (map ?g (zip xs ds)) = length xs"
    using Cons.prems(2) by simp
  show ?case
    using Cons.prems(2)
    by (simp add: rule_step_array [OF first] Cons.IH [OF rest len] zip_map_zip
                  last_match_Cons split: option.split)
qed

section \<open>The conversions on a calibration table\<close>

lemma convert_between_scalar:
  "py_getitem doc key = Inr (JArr (map rule_json rs)) \<Longrightarrow> truthy doc \<Longrightarrow>
   list_all rule_ok rs \<Longrightarrow>
   convert_between key doc (PyFloat t) =
   Inr (case last_match rs t of None \<Rightarrow> PyNone | Some r \<Rightarrow> PyFloat (rule_value r t))"
  by (simp add: convert_between_def full_like_or_none_def rule_loop_scalar)

lemma convert_between_array:
  "py_getitem doc key = Inr (JArr (map rule_json rs)) \<Longrightarrow> truthy doc \<Longrightarrow>
   list_all rule_ok rs \<Longrightarrow>
   convert_between key doc (NdArray xs) =
   Inr (NdArray (map (\<lambda>x. case last_match rs x of
                              None \<Rightarrow> Fin 0
                            | Some r \<Rightarrow> rule_value r x) xs))"
  by (simp add: convert_between_def full_like_or_none_def rule_loop_array zip_replicate2 comp_def
           cong: option.case_cong)

lemma convert_between_malformed:
  assumes doc: "py_getitem doc key = Inr (JArr (map rule_json (pre @ r # post)))" "truthy doc"
    and pre: "list_all rule_ok pre"
    and bad: "\<not> rule_inner r" "rule_lo r \<noteq> None" "rule_hi r \<noteq> None"
    and ts: "ts \<noteq> PyNone"
  shows "convert_between key doc ts = Inl RuntimeError"
proof (cases ts)
  case PyNone
  with ts show ?thesis by simp
next
  case (PyFloat x)
  with doc pre bad show ?thesis
    by (simp add: convert_between_def full_like_or_none_def rule_loop_append
          rule_loop_scalar rule_step_malformed)
next
  case (NdArray xs)
  with doc pre bad show ?thesis
    by (simp add: convert_between_def full_like_or_none_def rule_loop_append
          rule_loop_array rule_step_malformed)
qed

lemma native_to_relative_scalar:
  "truthy doc \<Longrightarrow> py_getitem doc sk = Inr (JNum s) \<Longrightarrow> py_getitem doc offk = Inr (JNum off) \<Longrightarrow>
   native_to_relative sk offk doc (PyFloat x) = Inr (PyFloat (fl_sub (fl_mul x s) off))"
  by (simp add: native_to_relative_def)

lemma native_to_relative_array:
  "truthy doc \<Longrightarrow> py_getitem doc sk = Inr (JNum s) \<Longrightarrow> py_getitem doc offk = Inr (JNum off) \<Longrightarrow>
   native_to_relative sk offk doc (NdArray xs) =
   Inr (NdArray (map (\<lambda>x. fl_sub (fl_mul x s) off) xs))"
  by (simp add: native_to_relative_def comp_def)

lemma relative_to_native_scalar:
  "truthy doc \<Longrightarrow> py_getitem doc sk = Inr (JNum s) \<Longrightarrow> py_getitem doc offk = Inr (JNum off) \<Longrightarrow>
   relative_to_native sk offk doc (PyFloat x) =
   (if s = 0 then Inl ZeroDivisionError else Inr (PyFloat (fl_div (fl_add x off) s)))"
  by (simp add: relative_to_native_def)

lemma relative_to_native_array:
  "truthy doc \<Longrightarrow> py_getitem doc sk = Inr (JNum s) \<Longrightarrow> py_getitem doc offk = Inr (JNum off) \<Longrightarrow>
   relative_to_native sk offk doc (NdArray xs) =
   Inr (NdArray (map (\<lambda>x. fl_div (fl_add x off) s) xs))"
  by (simp add: relative_to_native_def comp_def)

lemmas affine_on_table =
  native_to_relative_scalar [OF table_json_truthy]
  native_to_relative_array [OF table_json_truthy]
  relative_to_native_scalar [OF table_json_truthy]
  relative_to_native_array [OF table_json_truthy]

lemma not_initialized:
  "\<not> truthy doc \<Longrightarrow> list_all (\<lambda>f. f doc ts = Inl RuntimeError) conversions"
  by (simp add: conversions_def convert_defs convert_between_def affine_defs
                native_to_relative_def relative_to_native_def)

lemma valid_table_succeeds:
  assumes "valid_table T" and "ts \<noteq> PyNone"
  shows "list_all (\<lambda>f. succeeds (f (table_json T) ts)) conversions"
proof (cases ts)
  case PyNone
  with assms show ?thesis by simp
next
  case (PyFloat x)
  with assms(1) show ?thesis
    by (simp add: conversions_def valid_table_def succeeds_def convert_defs
          convert_between_scalar table_json_tables table_json_truthy
          affine_defs affine_on_table table_json_scalars)
next
  case (NdArray xs)
  with assms(1) show ?thesis
    by (simp add: conversions_def valid_table_def succeeds_def convert_defs
          convert_between_array table_json_tables table_json_truthy
          affine_defs affine_on_table table_json_scalars)
qed

lemma scenario_rules_ok: "list_all rule_ok scenario_rules"
  by (simp add: scenario_rules_def rule_ok_def)

lemma overlap_rules_ok: "list_all rule_ok overlap_rules"
  by (simp add: overlap_rules_def rule_ok_def)

lemma scenario_table_valid: "valid_table scenario_table"
  by (simp add: valid_table_def scenario_table_def scenario_rules_ok)

lemma convert_between_elementwise:
  assumes "py_getitem doc key = Inr (JArr (map rule_json rs))" "truthy doc" "list_all rule_ok rs"
  shows "convert_between key doc (NdArray xs) =
         Inr (NdArray (map (\<lambda>x. case convert_between key doc (PyFloat x) of
                                    Inr (PyFloat y) \<Rightarrow> y | _ \<Rightarrow> Fin 0) xs))"
proof -
  have "(case convert_between key doc (PyFloat x) of Inr (PyFloat y) \<Rightarrow> y | _ \<Rightarrow> Fin 0)
        = (case last_match rs x of None \<Rightarrow> Fin 0 | Some r \<Rightarrow> rule_value r x)" for x
    by (simp add: convert_between_scalar [OF assms] split: option.split)
  then show ?thesis
    by (simp add: convert_between_array [OF assms])
qed

lemma convert_between_none:
  assumes "py_getitem doc key = Inr (JArr (map rule_json rs))" "truthy doc" "list_all rule_ok rs"
  shows "(convert_between key doc (PyFloat x) = Inr PyNone)
         = (\<not> list_ex (\<lambda>r. rule_matches r x) rs)"
  by (simp add: convert_between_scalar [OF assms] last_match_None [symmetric]
           split: option.split)

lemma convert_between_single:
  "py_getitem doc key = Inr (JArr [rule_json r]) \<Longrightarrow> truthy doc \<Longrightarrow>
   convert_between key doc (PyFloat x) =
   py_bind (rule_indexes (rule_json r) (PyFloat x))
     (\<lambda>m. Inr (if m = MBool True then PyFloat (rule_value r x) else PyNone))"
  by (cases "rule_indexes (rule_json r) (PyFloat x)")
     (simp_all add: convert_between_def full_like_or_none_def rule_step_def affine_scalar)

section \<open>The membership test\<close>

text \<open>
  Claim C1. For every interval rule and every timestamp \<open>t\<close>, the membership test that
  the four conversions between sensors compute is: \<open>lo < t \<le> hi\<close> for an inner rule;
  \<open>t \<le> hi\<close> when the flag is false and \<open>lo\<close> is absent; \<open>t > lo\<close> when the flag is
  false and \<open>hi\<close> is absent. This holds for a scalar timestamp and for every element of
  an array. For the inner rule with \<open>lo = 1\<close> and \<open>hi = 2\<close>, the timestamp 1 does not
  match and the timestamp 2 does. Each of the four conversions applies this test: on a
  table with one rule, it returns \<open>x * conv_k + conv_b\<close> when the test is true and
  \<^verbatim>\<open>None\<close> when it is false.
\<close>

theorem membership_test:
  "rule_indexes (rule_json \<lparr>rule_lo = Some lo, rule_hi = Some hi, rule_inner = True,
                             rule_k = k, rule_b = b\<rparr>) (PyFloat (Fin t))
     = Inr (MBool (lo < t \<and> t \<le> hi)) \<and>
   rule_indexes (rule_json \<lparr>rule_lo = None, rule_hi = Some hi, rule_inner = False,
                             rule_k = k, rule_b = b\<rparr>) (PyFloat (Fin t))
     = Inr (MBool (t \<le> hi)) \<and>
   rule_indexes (rule_json \<lparr>rule_lo = Some lo, rule_hi = None, rule_inner = False,
                             rule_k = k, rule_b = b\<rparr>) (PyFloat (Fin t))
     = Inr (MBool (t > lo)) \<and>
   rule_indexes (rule_json \<lparr>rule_lo = Some lo, rule_hi = Some hi, rule_inner = True,
                             rule_k = k, rule_b = b\<rparr>) (NdArray (map Fin ts))
     = Inr (MArray (map (\<lambda>t. lo < t \<and> t \<le> hi) ts)) \<and>
   rule_indexes (rule_json \<lparr>rule_lo = None, rule_hi = Some hi, rule_inner = False,
                             rule_k = k, rule_b = b\<rparr>) (NdArray (map Fin ts))
     = Inr (MArray (map (\<lambda>t. t \<le> hi) ts)) \<and>
   rule_indexes (rule_json \<lparr>rule_lo = Some lo, rule_hi = None, rule_inner = False,
                             rule_k = k, rule_b = b\<rparr>) (NdArray (map Fin ts))
     = Inr (MArray (map (\<lambda>t. t > lo) ts)) \<and>
   rule_indexes (rule_json \<lparr>rule_lo = Some 1, rule_hi = Some 2, rule_inner = True,
                             rule_k = k, rule_b = b\<rparr>) (PyFloat (Fin 1))
     = Inr (MBool False) \<and>
   rule_indexes (rule_json \<lparr>rule_lo = Some 1, rule_hi = Some 2, rule_inner = True,
                             rule_k = k, rule_b = b\<rparr>) (PyFloat (Fin 2))
     = Inr (MBool True) \<and>
   convert_rs_to_dvs (table_json (T\<lparr>tab_rs_to_dvs := [r]\<rparr>)) (PyFloat x)
     = py_bind (rule_indexes (rule_json r) (PyFloat x))
         (\<lambda>m. Inr (if m = MBool True then PyFloat (rule_value r x) else PyNone)) \<and>
   convert_lidar_to_dvs (table_json (T\<lparr>tab_lidar_to_dvs := [r]\<rparr>)) (PyFloat x)
     = py_bind (rule_indexes (rule_json r) (PyFloat x))
         (\<lambda>m. Inr (if m = MBool True then PyFloat (rule_value r x) else PyNone)) \<and>
   convert_dvs_to_rs (table_json (T\<lparr>tab_dvs_to_rs := [r]\<rparr>)) (PyFloat x)
     = py_bind (rule_indexes (rule_json r) (PyFloat x))
         (\<lambda>m. Inr (if m = MBool True then PyFloat (rule_value r x) else PyNone)) \<and>
   convert_dvs_to_lidar (table_json (T\<lparr>tab_dvs_to_lidar := [r]\<rparr>)) (PyFloat x)
     = py_bind (rule_indexes (rule_json r) (PyFloat x))
         (\<lambda>m. Inr (if m = MBool True then PyFloat (rule_value r x) else PyNone))"
proof -
  let ?inner = "\<lambda>l h. \<lparr>rule_lo = Some l, rule_hi = Some h, rule_inner = True,
                        rule_k = k, rule_b = b\<rparr>"
  let ?upto = "\<lparr>rule_lo = None, rule_hi = Some hi, rule_inner = False,
                 rule_k = k, rule_b = b\<rparr>"
  let ?from = "\<lparr>rule_lo = Some lo, rule_hi = None, rule_inner = False,
                 rule_k = k, rule_b = b\<rparr>"
  have ok: "rule_ok (?inner l h)" "rule_ok ?upto" "rule_ok ?from" for l h
    by (simp_all add: rule_ok_def)
  have m: "rule_matches (?inner l h) (Fin x) = (l < x \<and> x \<le> h)"
          "rule_matches ?upto (Fin x) = (x \<le> hi)"
          "rule_matches ?from (Fin x) = (lo < x)" for l h x
    by (simp_all add: rule_matches_def)
  show ?thesis
    by (simp add: rule_indexes_scalar rule_indexes_array ok m comp_def
          convert_defs convert_between_single table_json_tables table_json_truthy)
qed

theorem membership_test_witness:
  "rule_indexes (rule_json \<lparr>rule_lo = Some 1, rule_hi = Some 2, rule_inner = True,
                             rule_k = 2, rule_b = 1\<rparr>) (PyFloat (Fin (3 / 2)))
     = Inr (MBool True) \<and>
   rule_indexes (rule_json \<lparr>rule_lo = None, rule_hi = Some 2, rule_inner = False,
                             rule_k = 2, rule_b = 1\<rparr>) (NdArray [Fin 2, Fin 3])
     = Inr (MArray [True, False]) \<and>
   rule_indexes (rule_json \<lparr>rule_lo = Some 1, rule_hi = None, rule_inner = False,
                             rule_k = 2, rule_b = 1\<rparr>) (NdArray [Fin 1, Fin 3])
     = Inr (MArray [False, True])"
  using membership_test [where lo = 1 and hi = 2 and k = 2 and b = 1 and t = "3 / 2"
                           and ts = "[2, 3]" and T = scenario_table
                           and r = both_present_rule and x = "Fin 5"]
        membership_test [where lo = 1 and hi = 2 and k = 2 and b = 1 and t = "3 / 2"
                           and ts = "[1, 3]" and T = scenario_table
                           and r = both_present_rule and x = "Fin 5"]
  by simp

section \<open>Scalar input\<close>

text \<open>
  Claim C2, as amended. For every calibration table whose rules are well formed and every
  scalar input \<open>x\<close>, each conversion between sensors returns \<open>x * conv_k + conv_b\<close> of
  the last rule, in list order, whose membership test is true for \<open>x\<close>, and \<^verbatim>\<open>None\<close>
  when no rule matches: the loop has no \<^verbatim>\<open>break\<close>, so a later match replaces an
  earlier one.
\<close>

theorem scalar_last_match:
  "(list_all rule_ok (tab_rs_to_dvs T) \<longrightarrow>
      convert_rs_to_dvs (table_json T) (PyFloat x) =
      Inr (case last_match (tab_rs_to_dvs T) x of
             None \<Rightarrow> PyNone | Some r \<Rightarrow> PyFloat (rule_value r x))) \<and>
   (list_all rule_ok (tab_lidar_to_dvs T) \<longrightarrow>
      convert_lidar_to_dvs (table_json T) (PyFloat x) =
      Inr (case last_match (tab_lidar_to_dvs T) x of
             None \<Rightarrow> PyNone | Some r \<Rightarrow> PyFloat (rule_value r x))) \<and>
   (list_all rule_ok (tab_dvs_to_rs T) \<longrightarrow>
      convert_dvs_to_rs (table_json T) (PyFloat x) =
      Inr (case last_match (tab_dvs_to_rs T) x of
             None \<Rightarrow> PyNone | Some r \<Rightarrow> PyFloat (rule_value r x))) \<and>
   (list_all rule_ok (tab_dvs_to_lidar T) \<longrightarrow>
      convert_dvs_to_lidar (table_json T) (PyFloat x) =
      Inr (case last_match (tab_dvs_to_lidar T) x of
             None \<Rightarrow> PyNone | Some r \<Rightarrow> PyFloat (rule_value r x)))"
  by (simp add: convert_defs convert_between_scalar table_json_tables table_json_truthy)

theorem scalar_last_match_witness:
  "list_all rule_ok (tab_rs_to_dvs (scenario_table\<lparr>tab_rs_to_dvs := overlap_rules\<rparr>)) \<and>
   convert_rs_to_dvs (table_json (scenario_table\<lparr>tab_rs_to_dvs := overlap_rules\<rparr>))
     (PyFloat (Fin 5)) = Inr (PyFloat (Fin 10))"
  using scalar_last_match [of "scenario_table\<lparr>tab_rs_to_dvs := overlap_rules\<rparr>" "Fin 5"]
  by (simp add: overlap_rules_ok)
     (simp add: overlap_rules_def last_match_def rule_matches_def rule_value_def)

text \<open>
  Claim C2 as stated (the first matching rule decides) fails where two rules match: at 5
  the first matching rule of \<open>overlap_rules\<close> gives 11, and the conversion returns 10, the
  value of the second.
\<close>

theorem scalar_first_match_counterexample:
  "first_match overlap_rules (Fin 5) = Some (overlap_rules ! 0) \<and>
   rule_value (overlap_rules ! 0) (Fin 5) = Fin 11 \<and>
   convert_rs_to_dvs (table_json (scenario_table\<lparr>tab_rs_to_dvs := overlap_rules\<rparr>))
     (PyFloat (Fin 5)) = Inr (PyFloat (Fin 10))"
proof -
  have "convert_rs_to_dvs (table_json (scenario_table\<lparr>tab_rs_to_dvs := overlap_rules\<rparr>))
          (PyFloat (Fin 5))
        = Inr (case last_match overlap_rules (Fin 5) of
                 None \<Rightarrow> PyNone | Some r \<Rightarrow> PyFloat (rule_value r (Fin 5)))"
    by (simp add: convert_defs convert_between_scalar table_json_tables table_json_truthy
          overlap_rules_ok)
  then show ?thesis
    by (simp add: overlap_rules_def first_match_def last_match_def rule_matches_def
          rule_value_def)
qed

section \<open>Array input\<close>

text \<open>
  Claim C3. For every calibration table whose rules are well formed and every array,
  each conversion between sensors starts from an array of zeros of the same shape; every
  rule, in list order, overwrites exactly the positions where its membership test is
  true with \<open>x * conv_k + conv_b\<close>; so each position ends with the value of the last
  matching rule of the list, and with zero when no rule matches.
\<close>

theorem batch_conversion:
  "full_like_or_none (NdArray xs) = NdArray (replicate (length xs) (Fin 0)) \<and>
   (rule_ok r \<and> length ds = length xs \<longrightarrow>
      rule_step (rule_json r) (NdArray xs) (NdArray ds) =
      Inr (NdArray (map (\<lambda>xd. if rule_matches r (fst xd) then rule_value r (fst xd)
                               else snd xd) (zip xs ds)))) \<and>
   (list_all rule_ok (tab_rs_to_dvs T) \<longrightarrow>
      convert_rs_to_dvs (table_json T) (NdArray xs) =
      Inr (NdArray (map (\<lambda>x. case last_match (tab_rs_to_dvs T) x of
                                 None \<Rightarrow> Fin 0 | Some r \<Rightarrow> rule_value r x) xs))) \<and>
   (list_all rule_ok (tab_lidar_to_dvs T) \<longrightarrow>
      convert_lidar_to_dvs (table_json T) (NdArray xs) =
      Inr (NdArray (map (\<lambda>x. case last_match (tab_lidar_to_dvs T) x of
                                 None \<Rightarrow> Fin 0 | Some r \<Rightarrow> rule_value r x) xs))) \<and>
   (list_all rule_ok (tab_dvs_to_rs T) \<longrightarrow>
      convert_dvs_to_rs (table_json T) (NdArray xs) =
      Inr (NdArray (map (\<lambda>x. case last_match (tab_dvs_to_rs T) x of
                                 None \<Rightarrow> Fin 0 | Some r \<Rightarrow> rule_value r x) xs))) \<and>
   (list_all rule_ok (tab_dvs_to_lidar T) \<longrightarrow>
      convert_dvs_to_lidar (table_json T) (NdArray xs) =
      Inr (NdArray (map (\<lambda>x. case last_match (tab_dvs_to_lidar T) x of
                                 None \<Rightarrow> Fin 0 | Some r \<Rightarrow> rule_value r x) xs)))"
proof -
  have zeros: "full_like_or_none (NdArray xs) = NdArray (replicate (length xs) (Fin 0))"
    by (simp add: full_like_or_none_def)
  have step: "rule_ok r \<and> length ds = length xs \<longrightarrow>
      rule_step (rule_json r) (NdArray xs) (NdArray ds) =
      Inr (NdArray (map (\<lambda>xd. if rule_matches r (fst xd) then rule_value r (fst xd)
                               else snd xd) (zip xs ds)))"
    by (simp add: rule_step_array)
  have tables: "list_all rule_ok rs \<longrightarrow> py_getitem (table_json T) key = Inr (JArr (map rule_json rs))
      \<longrightarrow> convert_between key (table_json T) (NdArray xs) =
      Inr (NdArray (map (\<lambda>x. case last_match rs x of
                                 None \<Rightarrow> Fin 0 | Some r \<Rightarrow> rule_value r x) xs))" for rs key
    by (simp add: convert_between_array table_json_truthy)
  show ?thesis
    using zeros step
    by (simp add: convert_defs tables table_json_tables)
qed

theorem batch_conversion_witness:
  "rule_ok (overlap_rules ! 1) \<and> length [Fin 7, Fin 8, Fin 9] = length [Fin 5, Fin 15, Fin 30] \<and>
   rule_step (rule_json (overlap_rules ! 1)) (NdArray [Fin 5, Fin 15, Fin 30])
     (NdArray [Fin 7, Fin 8, Fin 9]) = Inr (NdArray [Fin 10, Fin 40, Fin 9]) \<and>
   list_all rule_ok (tab_rs_to_dvs (scenario_table\<lparr>tab_rs_to_dvs := overlap_rules\<rparr>)) \<and>
   convert_rs_to_dvs (table_json (scenario_table\<lparr>tab_rs_to_dvs := overlap_rules\<rparr>))
     (NdArray [Fin 5, Fin 15, Fin 30]) = Inr (NdArray [Fin 10, Fin 40, Fin 0])"
  using batch_conversion [where T = "scenario_table\<lparr>tab_rs_to_dvs := overlap_rules\<rparr>"
                            and xs = "[Fin 5, Fin 15, Fin 30]" and r = "overlap_rules ! 1"
                            and ds = "[Fin 7, Fin 8, Fin 9]"]
  by (simp add: overlap_rules_ok)
     (simp add: overlap_rules_def last_match_def rule_matches_def rule_value_def rule_ok_def)

text \<open>
  Claim C4, as amended. For every calibration table whose rules are well formed and every
  array, a conversion between sensors gives at each position the value that the same
  conversion returns for that element as a scalar, whenever the scalar call returns a
  number (both take the last matching rule); where the scalar call returns \<^verbatim>\<open>None\<close>,
  which it does exactly when no rule matches, the array holds zero.
\<close>

theorem batch_elementwise:
  "(list_all rule_ok (tab_rs_to_dvs T) \<longrightarrow>
      convert_rs_to_dvs (table_json T) (NdArray xs) =
      Inr (NdArray (map (\<lambda>x. case convert_rs_to_dvs (table_json T) (PyFloat x) of
                                 Inr (PyFloat y) \<Rightarrow> y | _ \<Rightarrow> Fin 0) xs)) \<and>
      (convert_rs_to_dvs (table_json T) (PyFloat x) = Inr PyNone) =
      (\<not> list_ex (\<lambda>r. rule_matches r x) (tab_rs_to_dvs T))) \<and>
   (list_all rule_ok (tab_lidar_to_dvs T) \<longrightarrow>
      convert_lidar_to_dvs (table_json T) (NdArray xs) =
      Inr (NdArray (map (\<lambda>x. case convert_lidar_to_dvs (table_json T) (PyFloat x) of
                                 Inr (PyFloat y) \<Rightarrow> y | _ \<Rightarrow> Fin 0) xs)) \<and>
      (convert_lidar_to_dvs (table_json T) (PyFloat x) = Inr PyNone) =
      (\<not> list_ex (\<lambda>r. rule_matches r x) (tab_lidar_to_dvs T))) \<and>
   (list_all rule_ok (tab_dvs_to_rs T) \<longrightarrow>
      convert_dvs_to_rs (table_json T) (NdArray xs) =
      Inr (NdArray (map (\<lambda>x. case convert_dvs_to_rs (table_json T) (PyFloat x) of
                                 Inr (PyFloat y) \<Rightarrow> y | _ \<Rightarrow> Fin 0) xs)) \<and>
      (convert_dvs_to_rs (table_json T) (PyFloat x) = Inr PyNone) =
      (\<not> list_ex (\<lambda>r. rule_matches r x) (tab_dvs_to_rs T))) \<and>
   (list_all rule_ok (tab_dvs_to_lidar T) \<longrightarrow>
      convert_dvs_to_lidar (table_json T) (NdArray xs) =
      Inr (NdArray (map (\<lambda>x. case convert_dvs_to_lidar (table_json T) (PyFloat x) of
                                 Inr (PyFloat y) \<Rightarrow> y | _ \<Rightarrow> Fin 0) xs)) \<and>
      (convert_dvs_to_lidar (table_json T) (PyFloat x) = Inr PyNone) =
      (\<not> list_ex (\<lambda>r. rule_matches r x) (tab_dvs_to_lidar T)))"
  by (simp add: convert_defs convert_between_elementwise convert_between_none
        table_json_tables table_json_truthy)

theorem batch_elementwise_witness:
  "list_all rule_ok (tab_rs_to_dvs (scenario_table\<lparr>tab_rs_to_dvs := overlap_rules\<rparr>)) \<and>
   convert_rs_to_dvs (table_json (scenario_table\<lparr>tab_rs_to_dvs := overlap_rules\<rparr>))
     (NdArray [Fin 5, Fin 30]) = Inr (NdArray [Fin 10, Fin 0]) \<and>
   convert_rs_to_dvs (table_json (scenario_table\<lparr>tab_rs_to_dvs := overlap_rules\<rparr>))
     (PyFloat (Fin 5)) = Inr (PyFloat (Fin 10)) \<and>
   convert_rs_to_dvs (table_json (scenario_table\<lparr>tab_rs_to_dvs := overlap_rules\<rparr>))
     (PyFloat (Fin 30)) = Inr PyNone"
proof -
  let ?doc = "table_json (scenario_table\<lparr>tab_rs_to_dvs := overlap_rules\<rparr>)"
  have scalar: "convert_rs_to_dvs ?doc (PyFloat (Fin 5)) = Inr (PyFloat (Fin 10))"
               "convert_rs_to_dvs ?doc (PyFloat (Fin 30)) = Inr PyNone"
    by (simp_all add: convert_defs convert_between_scalar table_json_tables table_json_truthy
          overlap_rules_ok)
       (simp_all add: overlap_rules_def last_match_def rule_matches_def rule_value_def)
  show ?thesis
    using batch_elementwise [of "scenario_table\<lparr>tab_rs_to_dvs := overlap_rules\<rparr>"
                               "[Fin 5, Fin 30]" "Fin 30"]
    by (simp add: overlap_rules_ok scalar)
qed

text \<open>
  Claim C4 as stated (the same value at every position) fails at a position that no rule
  matches: for the timestamp 30 and \<open>overlap_rules\<close> the array holds 0 and the scalar
  call returns \<^verbatim>\<open>None\<close>.
\<close>

theorem batch_scalar_counterexample:
  "convert_rs_to_dvs (table_json (scenario_table\<lparr>tab_rs_to_dvs := overlap_rules\<rparr>))
     (NdArray [Fin 30]) = Inr (NdArray [Fin 0]) \<and>
   convert_rs_to_dvs (table_json (scenario_table\<lparr>tab_rs_to_dvs := overlap_rules\<rparr>))
     (PyFloat (Fin 30)) = Inr PyNone"
  by (simp add: convert_defs convert_between_scalar convert_between_array table_json_tables
        table_json_truthy overlap_rules_ok)
     (simp add: overlap_rules_def last_match_def rule_matches_def rule_value_def)

section \<open>Native and relative time stamps\<close>

text \<open>
  The two formulas are inverse in exact arithmetic: for each of the three sensors and
  every finite timestamp (a scalar, or an array of finite values), if the scale of the
  sensor is not zero, \<open>((ts * scale - offset) + offset) / scale = ts\<close>. This is a fact
  about the formulas, not about the doubles the module computes with: each of the four
  operations rounds, and the rest of this section is about the rounded results.
\<close>

lemma roundtrip_exact_arithmetic:
  "(dvs_scale T \<noteq> 0 \<longrightarrow>
      py_bind (dvs_native_to_relative (table_json T) (PyFloat (Fin ts)))
              (dvs_relative_to_native (table_json T)) = Inr (PyFloat (Fin ts)) \<and>
      py_bind (dvs_native_to_relative (table_json T) (NdArray (map Fin tss)))
              (dvs_relative_to_native (table_json T)) = Inr (NdArray (map Fin tss))) \<and>
   (lidar_scale T \<noteq> 0 \<longrightarrow>
      py_bind (lidar_native_to_relative (table_json T) (PyFloat (Fin ts)))
              (lidar_relative_to_native (table_json T)) = Inr (PyFloat (Fin ts)) \<and>
      py_bind (lidar_native_to_relative (table_json T) (NdArray (map Fin tss)))
              (lidar_relative_to_native (table_json T)) = Inr (NdArray (map Fin tss))) \<and>
   (rs_scale T \<noteq> 0 \<longrightarrow>
      py_bind (rs_native_to_relative (table_json T) (PyFloat (Fin ts)))
              (rs_relative_to_native (table_json T)) = Inr (PyFloat (Fin ts)) \<and>
      py_bind (rs_native_to_relative (table_json T) (NdArray (map Fin tss)))
              (rs_relative_to_native (table_json T)) = Inr (NdArray (map Fin tss)))"
proof -
  have inverse: "s \<noteq> 0 \<Longrightarrow> fl_div (fl_add (fl_sub (fl_mul (Fin x) s) off) off) s = Fin x"
    for s off x :: real
    by simp
  show ?thesis
    by (simp add: affine_defs affine_on_table table_json_scalars comp_def inverse)
qed

subsection \<open>Rounding\<close>

lemma ilog2_bounds: "0 < x \<Longrightarrow> 2 powi ilog2 x \<le> x \<and> x < 2 powi (ilog2 x + 1)"
proof (induction x rule: ilog2.induct)
  case (1 x)
  show ?case
  proof (cases "2 \<le> x")
    case True
    with 1 have ih: "2 powi ilog2 (x / 2) \<le> x / 2 \<and> x / 2 < 2 powi (ilog2 (x / 2) + 1)"
      by simp
    have eq: "ilog2 x = ilog2 (x / 2) + 1" using True "1.prems" by (subst ilog2.simps) simp
    show ?thesis using ih by (simp add: eq power_int_add field_simps)
  next
    case False
    show ?thesis
    proof (cases "x < 1")
      case True
      with 1 False have ih: "2 powi ilog2 (x * 2) \<le> x * 2 \<and> x * 2 < 2 powi (ilog2 (x * 2) + 1)"
        by simp
      have eq: "ilog2 x = ilog2 (x * 2) - 1" using True False "1.prems" by (subst ilog2.simps) simp
      show ?thesis using ih by (simp add: eq power_int_add power_int_diff field_simps)
    next
      case ge: False
      have eq: "ilog2 x = 0" using ge False "1.prems" by (subst ilog2.simps) simp
      show ?thesis using ge False by (simp add: eq)
    qed
  qed
qed

lemma ilog2_eqI:
  assumes "2 powi e \<le> x" "x < 2 powi (e + 1)"
  shows "ilog2 x = e"
proof -
  have pos: "0 < x" using assms(1) by (rule less_le_trans [rotated]) simp
  from ilog2_bounds [OF pos] have b: "2 powi ilog2 x \<le> x" "x < 2 powi (ilog2 x + 1)" by simp_all
  have lt: "m < n" if "(2::real) powi m < 2 powi n" for m n :: int
  proof (rule ccontr)
    assume "\<not> m < n"
    then have "(2::real) powi n \<le> 2 powi m" by (intro power_int_increasing) simp_all
    with that show False by simp
  qed
  have "(2::real) powi e < 2 powi (ilog2 x + 1)" using assms(1) b(2) by linarith
  then have "e < ilog2 x + 1" by (rule lt)
  moreover have "(2::real) powi ilog2 x < 2 powi (e + 1)" using assms(2) b(1) by linarith
  then have "ilog2 x < e + 1" by (rule lt)
  ultimately show ?thesis by simp
qed

lemma round_half_even_error: "\<bar>of_int (round_half_even y) - y\<bar> \<le> 1 / 2"
  unfolding round_half_even_def Let_def by (auto simp: abs_le_iff)

lemma round_double_error:
  assumes "round_double x = Fin y"
  shows "\<bar>y - x\<bar> \<le> 2 powi (- 53) * \<bar>x\<bar> + 2 powi (- 1075)"
proof (cases "x = 0")
  case True
  with assms show ?thesis by (simp add: round_double_def)
next
  case False
  define e where "e = ilog2 \<bar>x\<bar>"
  define q :: real where "q = 2 powi (max (e - 52) (- 1074))"
  have qpos: "0 < q" by (simp add: q_def)
  have y: "y = of_int (round_half_even (x / q)) * q"
    using assms False by (simp add: round_double_def Let_def e_def q_def split: if_splits)
  have "y - x = (of_int (round_half_even (x / q)) - x / q) * q"
    using qpos by (simp add: y field_simps)
  then have "\<bar>y - x\<bar> = \<bar>of_int (round_half_even (x / q)) - x / q\<bar> * q"
    using qpos by (simp add: abs_mult)
  also have "\<dots> \<le> 1 / 2 * q"
    using qpos round_half_even_error [of "x / q"] by (intro mult_right_mono) simp_all
  finally have half: "\<bar>y - x\<bar> \<le> q / 2" by simp
  have low: "2 powi e \<le> \<bar>x\<bar>"
    using ilog2_bounds [of "\<bar>x\<bar>"] False by (simp add: e_def)
  have halve: "(2::real) powi n / 2 = 2 powi (n - 1)" for n :: int
    by (simp add: power_int_diff)
  have u0: "(0::real) \<le> 2 powi (- 53)" and h0: "(0::real) \<le> 2 powi (- 1075)"
    by (rule zero_le_power_int, simp)+
  show ?thesis
  proof (cases "- 1074 \<le> e - 52")
    case True
    then have "max (e - 52) (- 1074) = e - 52" by linarith
    then have "q = 2 powi (e - 52)" by (simp only: q_def)
    then have "q / 2 = 2 powi (e - 52 - 1)" by (simp only: halve)
    also have "e - 52 - 1 = - 53 + e" by linarith
    finally have "q / 2 = 2 powi (- 53 + e)" .
    also have "\<dots> = 2 powi (- 53) * 2 powi e" by (rule power_int_add) simp
    also have "\<dots> \<le> 2 powi (- 53) * \<bar>x\<bar>"
      using low u0 by (rule mult_left_mono)
    finally show ?thesis using half h0 by linarith
  next
    case False
    then have "max (e - 52) (- 1074) = - 1074" by linarith
    then have "q = 2 powi (- 1074)" by (simp only: q_def)
    then have "q / 2 = 2 powi (- 1074 - 1)" by (simp only: halve)
    also have "(- 1074 :: int) - 1 = - 1075" by simp
    finally have "q / 2 = 2 powi (- 1075)" .
    moreover have "0 \<le> 2 powi (- 53) * \<bar>x\<bar>" using u0 by simp
    ultimately show ?thesis using half by linarith
  qed
qed

lemma roundtrip_error_bound:
  fixes ts s off a b c r u h :: real
  assumes u: "0 \<le> u" "u \<le> 1" and h: "0 \<le> h" and s: "s \<noteq> 0"
    and e1: "\<bar>a - ts * s\<bar> \<le> u * \<bar>ts * s\<bar> + h"
    and e2: "\<bar>b - (a - off)\<bar> \<le> u * \<bar>a - off\<bar> + h"
    and e3: "\<bar>c - (b + off)\<bar> \<le> u * \<bar>b + off\<bar> + h"
    and e4: "\<bar>r - c / s\<bar> \<le> u * \<bar>c / s\<bar> + h"
  shows "\<bar>r - ts\<bar> \<le> 15 * u * (\<bar>ts\<bar> + \<bar>off / s\<bar>) + h * (14 / \<bar>s\<bar> + 1)"
proof -
  define A where "A = \<bar>ts * s\<bar>"
  define X where "X = A + \<bar>off\<bar>"
  have A: "0 \<le> A" "A \<le> X" and X: "0 \<le> X" by (simp_all add: A_def X_def)
  have uX: "0 \<le> u * X" using u X by simp
  have uA: "u * A \<le> u * X" using u A by (intro mult_left_mono) simp_all
  have uh: "u * h \<le> h" using u h by (simp add: mult_left_le_one_le)
  have uuX: "u * (u * X) \<le> u * X" using u uX by (simp add: mult_left_le_one_le)
  have uX1: "u * X \<le> X" using u X by (simp add: mult_left_le_one_le)
  have a: "\<bar>a\<bar> \<le> A + u * X + h" using e1 uA unfolding A_def by linarith
  have "u * \<bar>a - off\<bar> \<le> u * (X + u * X + h)"
    using a u unfolding X_def by (intro mult_left_mono) linarith+
  then have m2: "u * \<bar>a - off\<bar> \<le> 2 * (u * X) + h"
    using uuX uh by (simp add: algebra_simps)
  have d2: "\<bar>b + off - ts * s\<bar> \<le> 3 * (u * X) + 3 * h"
    using e1 e2 m2 uA unfolding A_def by linarith
  have bo: "\<bar>b + off\<bar> \<le> 4 * X + 3 * h"
    using d2 A uX1 unfolding A_def by linarith
  have "u * \<bar>b + off\<bar> \<le> u * (4 * X + 3 * h)"
    using bo u by (intro mult_left_mono) simp_all
  then have m3: "u * \<bar>b + off\<bar> \<le> 4 * (u * X) + 3 * h"
    using uh by (simp add: algebra_simps)
  have d3: "\<bar>c - ts * s\<bar> \<le> 7 * (u * X) + 7 * h"
    using d2 e3 m3 by linarith
  have cc: "\<bar>c\<bar> \<le> 8 * X + 7 * h"
    using d3 A uX1 unfolding A_def by linarith
  have "u * \<bar>c\<bar> \<le> u * (8 * X + 7 * h)"
    using cc u by (intro mult_left_mono) simp_all
  then have m4: "u * \<bar>c\<bar> \<le> 8 * (u * X) + 7 * h"
    using uh by (simp add: algebra_simps)
  define S where "S = \<bar>s\<bar>"
  have spos: "0 < S" using s by (simp add: S_def)
  have "c / s - ts = (c - ts * s) / s"
    using s by (simp add: field_simps)
  then have "\<bar>c / s - ts\<bar> = \<bar>c - ts * s\<bar> / S"
    by (simp only: abs_divide S_def)
  moreover have "\<bar>c - ts * s\<bar> / S \<le> (7 * (u * X) + 7 * h) / S"
    using d3 spos by (intro divide_right_mono) simp_all
  ultimately have d4: "\<bar>c / s - ts\<bar> \<le> (7 * (u * X) + 7 * h) / S"
    by (simp only:)
  have "u * \<bar>c / s\<bar> = (u * \<bar>c\<bar>) / S" by (simp add: S_def)
  moreover have "(u * \<bar>c\<bar>) / S \<le> (8 * (u * X) + 7 * h) / S"
    using m4 spos by (intro divide_right_mono) simp_all
  ultimately have m5: "u * \<bar>c / s\<bar> \<le> (8 * (u * X) + 7 * h) / S"
    by (simp only:)
  have xs: "X / S = \<bar>ts\<bar> + \<bar>off / s\<bar>"
    using s by (simp add: X_def A_def S_def abs_mult add_divide_distrib)
  have "\<bar>r - ts\<bar> \<le> \<bar>r - c / s\<bar> + \<bar>c / s - ts\<bar>" by linarith
  also have "\<dots> \<le> (8 * (u * X) + 7 * h) / S + h + (7 * (u * X) + 7 * h) / S"
    using e4 m5 d4 by linarith
  also have "\<dots> = 15 * u * (X / S) + h * (14 / S + 1)"
    using spos by (simp add: field_simps)
  finally have "\<bar>r - ts\<bar> \<le> 15 * u * (X / S) + h * (14 / S + 1)" .
  then show ?thesis unfolding xs unfolding S_def .
qed

lemma round_double_eval:
  assumes "x \<noteq> 0" "2 powi e \<le> \<bar>x\<bar>" "\<bar>x\<bar> < 2 powi (e + 1)" "- 1022 \<le> e"
    and "round_half_even (x / 2 powi (e - 52)) = m"
    and "\<bar>real_of_int m * 2 powi (e - 52)\<bar> < 2 ^ 1024"
  shows "round_double x = Fin (of_int m * 2 powi (e - 52))"
proof -
  have e: "ilog2 \<bar>x\<bar> = e" using assms(2,3) by (rule ilog2_eqI)
  have "max (e - 52) (- 1074) = e - 52" using assms(4) by linarith
  then show ?thesis
    using assms(1,5,6) unfolding round_double_def e Let_def by (simp only: if_False) simp
qed


lemmas double_defs =
  dvs_native_to_relative_double_def dvs_relative_to_native_double_def
  lidar_native_to_relative_double_def lidar_relative_to_native_double_def
  rs_native_to_relative_double_def rs_relative_to_native_double_def

lemma roundtrip_double_scalar:
  assumes "truthy doc" "py_getitem doc sk = Inr (JNum s)" "py_getitem doc offk = Inr (JNum off)"
    and "s \<noteq> 0"
  shows "py_bind (native_to_relative_double sk offk doc (PyFloat x))
                 (relative_to_native_double sk offk doc)
         = Inr (PyFloat (roundtrip_double s off x))"
  using assms
  by (simp add: native_to_relative_double_def relative_to_native_double_def roundtrip_double_def)

lemma roundtrip_double_array:
  assumes "truthy doc" "py_getitem doc sk = Inr (JNum s)" "py_getitem doc offk = Inr (JNum off)"
  shows "py_bind (native_to_relative_double sk offk doc (NdArray xs))
                 (relative_to_native_double sk offk doc)
         = Inr (NdArray (map (roundtrip_double s off) xs))"
  using assms
  by (simp add: native_to_relative_double_def relative_to_native_double_def roundtrip_double_def
        comp_def)

lemma dbl_finite:
  "dbl_mul v k = Fin y \<Longrightarrow> \<exists>x. v = Fin x \<and> round_double (x * k) = Fin y"
  "dbl_sub v k = Fin y \<Longrightarrow> \<exists>x. v = Fin x \<and> round_double (x - k) = Fin y"
  "dbl_add v k = Fin y \<Longrightarrow> \<exists>x. v = Fin x \<and> round_double (x + k) = Fin y"
  "k \<noteq> 0 \<Longrightarrow> dbl_div v k = Fin y \<Longrightarrow> \<exists>x. v = Fin x \<and> round_double (x / k) = Fin y"
  by (cases v; simp split: if_splits)+

lemma roundtrip_double_bound:
  assumes s: "s \<noteq> 0" and r: "roundtrip_double s off (Fin ts) = Fin r"
  shows "\<bar>r - ts\<bar> \<le> roundtrip_tolerance s off ts"
proof -
  from dbl_finite(4) [OF s r [unfolded roundtrip_double_def]]
  obtain c where c: "dbl_add (dbl_sub (dbl_mul (Fin ts) s) off) off = Fin c"
    and rc: "round_double (c / s) = Fin r" by blast
  from dbl_finite(3) [OF c]
  obtain b where b: "dbl_sub (dbl_mul (Fin ts) s) off = Fin b"
    and cb: "round_double (b + off) = Fin c" by blast
  from dbl_finite(2) [OF b]
  obtain a where a: "dbl_mul (Fin ts) s = Fin a"
    and ba: "round_double (a - off) = Fin b" by blast
  from a have ats: "round_double (ts * s) = Fin a" by simp
  have u: "(0::real) \<le> 2 powi (- 53)" "(2::real) powi (- 53) \<le> 1"
    by simp_all
  have h: "(0::real) \<le> 2 powi (- 1075)" by simp
  show ?thesis
    unfolding roundtrip_tolerance_def
    by (rule roundtrip_error_bound [OF u h s
          round_double_error [OF ats] round_double_error [OF ba]
          round_double_error [OF cb] round_double_error [OF rc]])
qed

lemma roundtrip_cancelling: "roundtrip_double 1 (2 ^ 54) (Fin 1) = Fin 0"
proof -
  have a: "round_double (1 * 1) = Fin 1"
    using round_double_eval [of "1 * 1" 0 "2 ^ 52"] by (simp add: round_half_even_def)
  have b: "round_double (1 - 2 ^ 54) = Fin (- (2 ^ 54))"
    using round_double_eval [of "1 - 2 ^ 54" 53 "- (2 ^ 53)"] by (simp add: round_half_even_def)
  have c: "round_double (- (2 ^ 54) + 2 ^ 54) = Fin 0"
    by (simp add: round_double_def)
  have r: "dbl_div (Fin 0) 1 = Fin 0"
    by (simp add: round_double_def)
  show ?thesis
    unfolding roundtrip_double_def dbl_mul.simps a dbl_sub.simps b dbl_add.simps c
    by (rule r)
qed

lemma double_of_tenth: "round_double (1 / 10) = Fin (3602879701896397 / 2 ^ 55)"
  using round_double_eval [of "1 / 10" "- 4" 7205759403792794]
  by (simp add: round_half_even_def)

lemma double_of_millionth: "round_double (1 / 1000000) = Fin (4722366482869645 / 2 ^ 72)"
  using round_double_eval [of "1 / 1000000" "- 20" 4722366482869645]
  by (simp add: round_half_even_def)

lemma roundtrip_scenario:
  "roundtrip_double (4722366482869645 / 2 ^ 72) 3 (Fin (3602879701896397 / 2 ^ 55))
     = Fin (3518437203125 / 2 ^ 45)"
proof -
  have a: "round_double ((3602879701896397 / 2 ^ 55) * (4722366482869645 / 2 ^ 72))
             = Fin (944473296573929 / 2 ^ 73)"
    using round_double_eval [of "(3602879701896397 / 2 ^ 55) * (4722366482869645 / 2 ^ 72)"
                                "- 24" 7555786372591432]
    by (simp add: round_half_even_def)
  have b: "round_double (944473296573929 / 2 ^ 73 - 3) = Fin (- 6755399215875763 / 2 ^ 51)"
    using round_double_eval [of "944473296573929 / 2 ^ 73 - 3" 1 "- 6755399215875763"]
    by (simp add: round_half_even_def)
  have c: "round_double (- 6755399215875763 / 2 ^ 51 + 3) = Fin (225179981 / 2 ^ 51)"
    using round_double_eval [of "- 6755399215875763 / 2 ^ 51 + 3" "- 24" 7555786360225792]
    by (simp add: round_half_even_def)
  have r: "round_double ((225179981 / 2 ^ 51) / (4722366482869645 / 2 ^ 72))
             = Fin (3518437203125 / 2 ^ 45)"
    using round_double_eval [of "(225179981 / 2 ^ 51) / (4722366482869645 / 2 ^ 72)"
                                "- 4" 7205759392000000]
    by (simp add: round_half_even_def)
  show ?thesis
    unfolding roundtrip_double_def dbl_mul.simps a dbl_sub.simps b dbl_add.simps c
    using r by simp
qed

lemmas roundtrip_on_table =
  roundtrip_double_scalar [OF table_json_truthy]
  roundtrip_double_array [OF table_json_truthy]


text \<open>
  Claim C5, as amended. For each of the three sensors, if the scale of the sensor is not
  zero and both calls read the same table, converting a timestamp to relative and back
  (a float, or an array of doubles element by element) returns the timestamp up to
  rounding only:
  whenever the result \<open>r\<close> is finite,
  \<open>\<bar>r - ts\<bar> \<le> 15 * 2 ^ -53 * (\<bar>ts\<bar> + \<bar>offset / scale\<bar>) + 2 ^ -1075 * (14 / \<bar>scale\<bar> + 1)\<close>.
\<close>

theorem roundtrip_within_tolerance:
  "(dvs_scale T \<noteq> 0 \<longrightarrow>
      py_bind (dvs_native_to_relative_double (table_json T) (PyFloat x))
              (dvs_relative_to_native_double (table_json T))
        = Inr (PyFloat (roundtrip_double (dvs_scale T) (dvs_offset T) x)) \<and>
      py_bind (dvs_native_to_relative_double (table_json T) (NdArray xs))
              (dvs_relative_to_native_double (table_json T))
        = Inr (NdArray (map (roundtrip_double (dvs_scale T) (dvs_offset T)) xs))) \<and>
   (lidar_scale T \<noteq> 0 \<longrightarrow>
      py_bind (lidar_native_to_relative_double (table_json T) (PyFloat x))
              (lidar_relative_to_native_double (table_json T))
        = Inr (PyFloat (roundtrip_double (lidar_scale T) (lidar_offset T) x)) \<and>
      py_bind (lidar_native_to_relative_double (table_json T) (NdArray xs))
              (lidar_relative_to_native_double (table_json T))
        = Inr (NdArray (map (roundtrip_double (lidar_scale T) (lidar_offset T)) xs))) \<and>
   (rs_scale T \<noteq> 0 \<longrightarrow>
      py_bind (rs_native_to_relative_double (table_json T) (PyFloat x))
              (rs_relative_to_native_double (table_json T))
        = Inr (PyFloat (roundtrip_double (rs_scale T) (rs_offset T) x)) \<and>
      py_bind (rs_native_to_relative_double (table_json T) (NdArray xs))
              (rs_relative_to_native_double (table_json T))
        = Inr (NdArray (map (roundtrip_double (rs_scale T) (rs_offset T)) xs))) \<and>
   (scale \<noteq> 0 \<and> roundtrip_double scale offset (Fin ts) = Fin r \<longrightarrow>
      \<bar>r - ts\<bar> \<le> roundtrip_tolerance scale offset ts)"
proof -
  have calls: "s \<noteq> 0 \<longrightarrow>
      py_getitem (table_json T) sk = Inr (JNum s) \<longrightarrow>
      py_getitem (table_json T) offk = Inr (JNum off) \<longrightarrow>
      py_bind (native_to_relative_double sk offk (table_json T) (PyFloat x))
              (relative_to_native_double sk offk (table_json T))
        = Inr (PyFloat (roundtrip_double s off x)) \<and>
      py_bind (native_to_relative_double sk offk (table_json T) (NdArray xs))
              (relative_to_native_double sk offk (table_json T))
        = Inr (NdArray (map (roundtrip_double s off) xs))" for s off sk offk
    by (simp add: roundtrip_on_table)
  have bound: "scale \<noteq> 0 \<and> roundtrip_double scale offset (Fin ts) = Fin r \<longrightarrow>
      \<bar>r - ts\<bar> \<le> roundtrip_tolerance scale offset ts"
    by (simp add: roundtrip_double_bound)
  show ?thesis
    using bound by (simp add: double_defs calls table_json_scalars)
qed

theorem roundtrip_within_tolerance_witness:
  "dvs_scale double_scenario_table \<noteq> 0 \<and>
   py_bind (dvs_native_to_relative_double (table_json double_scenario_table)
              (PyFloat (Fin (3602879701896397 / 2 ^ 55))))
           (dvs_relative_to_native_double (table_json double_scenario_table))
     = Inr (PyFloat (Fin (3518437203125 / 2 ^ 45))) \<and>
   roundtrip_double (dvs_scale double_scenario_table) (dvs_offset double_scenario_table)
     (Fin (3602879701896397 / 2 ^ 55)) = Fin (3518437203125 / 2 ^ 45) \<and>
   \<bar>3518437203125 / 2 ^ 45 - 3602879701896397 / 2 ^ 55\<bar>
     \<le> roundtrip_tolerance (dvs_scale double_scenario_table) (dvs_offset double_scenario_table)
          (3602879701896397 / 2 ^ 55)"
proof -
  have t: "dvs_scale double_scenario_table = 4722366482869645 / 2 ^ 72"
          "dvs_offset double_scenario_table = 3"
    by (simp_all add: double_scenario_table_def scenario_table_def)
  show ?thesis
    using roundtrip_within_tolerance
            [where T = double_scenario_table and x = "Fin (3602879701896397 / 2 ^ 55)"
               and xs = "[]" and scale = "4722366482869645 / 2 ^ 72" and offset = 3
               and ts = "3602879701896397 / 2 ^ 55" and r = "3518437203125 / 2 ^ 45"]
          roundtrip_scenario
    unfolding t by simp
qed

text \<open>
  Claim C5 as stated (the result equals the timestamp) fails in doubles. With scale 1 and
  offset \<open>2 ^ 54\<close> the timestamp 1.0 comes back as 0.0. With the scenario table, where
  the scale is the double of \<^verbatim>\<open>1e-6\<close> and the offset is 3.0, the double of \<^verbatim>\<open>0.1\<close>
  comes back as 0.09999999983634211, which is \<open>3518437203125 / 2 ^ 45\<close>.
\<close>

theorem roundtrip_counterexample:
  "dvs_scale cancelling_table \<noteq> 0 \<and>
   py_bind (dvs_native_to_relative_double (table_json cancelling_table) (PyFloat (Fin 1)))
           (dvs_relative_to_native_double (table_json cancelling_table))
     = Inr (PyFloat (Fin 0)) \<and>
   round_double (1 / 10) = Fin (3602879701896397 / 2 ^ 55) \<and>
   round_double (1 / 1000000) = Fin (dvs_scale double_scenario_table) \<and>
   dvs_offset double_scenario_table = 3 \<and>
   py_bind (dvs_native_to_relative_double (table_json double_scenario_table)
              (PyFloat (Fin (3602879701896397 / 2 ^ 55))))
           (dvs_relative_to_native_double (table_json double_scenario_table))
     = Inr (PyFloat (Fin (3518437203125 / 2 ^ 45)))"
proof -
  have t: "dvs_scale double_scenario_table = 4722366482869645 / 2 ^ 72"
          "dvs_offset double_scenario_table = 3"
          "dvs_scale cancelling_table = 1" "dvs_offset cancelling_table = 2 ^ 54"
    by (simp_all add: double_scenario_table_def cancelling_table_def scenario_table_def)
  have call: "s \<noteq> 0 \<Longrightarrow> dvs_scale T = s \<Longrightarrow> dvs_offset T = off \<Longrightarrow>
      py_bind (dvs_native_to_relative_double (table_json T) (PyFloat x))
              (dvs_relative_to_native_double (table_json T))
        = Inr (PyFloat (roundtrip_double s off x))" for s off T x
    by (simp add: double_defs roundtrip_on_table table_json_scalars)
  have one: "py_bind (dvs_native_to_relative_double (table_json cancelling_table) (PyFloat (Fin 1)))
               (dvs_relative_to_native_double (table_json cancelling_table))
             = Inr (PyFloat (Fin 0))"
  proof -
    have "(1::real) \<noteq> 0" by simp
    from call [OF this t(3) t(4)] show ?thesis by (simp only: roundtrip_cancelling)
  qed
  have two: "py_bind (dvs_native_to_relative_double (table_json double_scenario_table)
                 (PyFloat (Fin (3602879701896397 / 2 ^ 55))))
               (dvs_relative_to_native_double (table_json double_scenario_table))
             = Inr (PyFloat (Fin (3518437203125 / 2 ^ 45)))"
  proof -
    have "(4722366482869645 / 2 ^ 72 :: real) \<noteq> 0" by simp
    from call [OF this t(1) t(2)] show ?thesis by (simp only: roundtrip_scenario)
  qed
  show ?thesis
    using one two double_of_tenth double_of_millionth by (simp only: t) simp
qed

section \<open>The end-to-end scenario\<close>

text \<open>
  Claim C6, as amended. With the two rules of the scenario as the \<^verbatim>\<open>rs_to_dvs\<close> table,
  \<^verbatim>\<open>convert_rs_to_dvs(5.0)\<close> is 11.0, \<^verbatim>\<open>convert_rs_to_dvs(10.0)\<close> is 21.0 (the first
  rule still applies, and gives \<open>10 * 2 + 1\<close>) and \<^verbatim>\<open>convert_rs_to_dvs(10.0001)\<close> is
  25.0003.
\<close>

theorem scenario_results:
  "convert_rs_to_dvs (table_json (T\<lparr>tab_rs_to_dvs := scenario_rules\<rparr>)) (PyFloat (Fin 5))
     = Inr (PyFloat (Fin 11)) \<and>
   convert_rs_to_dvs (table_json (T\<lparr>tab_rs_to_dvs := scenario_rules\<rparr>)) (PyFloat (Fin 10))
     = Inr (PyFloat (Fin 21)) \<and>
   convert_rs_to_dvs (table_json (T\<lparr>tab_rs_to_dvs := scenario_rules\<rparr>)) (PyFloat (Fin 10.0001))
     = Inr (PyFloat (Fin 25.0003))"
proof -
  have "convert_rs_to_dvs (table_json (T\<lparr>tab_rs_to_dvs := scenario_rules\<rparr>)) (PyFloat x)
        = Inr (case last_match scenario_rules x of
                 None \<Rightarrow> PyNone | Some r \<Rightarrow> PyFloat (rule_value r x))" for x
    by (simp add: convert_defs convert_between_scalar table_json_tables table_json_truthy
          scenario_rules_ok)
  then show ?thesis
    by (simp add: scenario_rules_def last_match_def rule_matches_def rule_value_def)
qed

theorem scenario_results_witness:
  "convert_rs_to_dvs (table_json scenario_table) (PyFloat (Fin 10)) = Inr (PyFloat (Fin 21))"
  using scenario_results [of scenario_table]
  by (simp add: scenario_table_def)

text \<open>
  Claim C6 as stated gives 11.0 for \<^verbatim>\<open>convert_rs_to_dvs(10.0)\<close>; the conversion does not
  return it.
\<close>

theorem scenario_counterexample:
  "convert_rs_to_dvs (table_json scenario_table) (PyFloat (Fin 10)) \<noteq> Inr (PyFloat (Fin 11))"
proof -
  have "convert_rs_to_dvs (table_json scenario_table) (PyFloat (Fin 10))
        = Inr (case last_match scenario_rules (Fin 10) of
                 None \<Rightarrow> PyNone | Some r \<Rightarrow> PyFloat (rule_value r (Fin 10)))"
    by (simp add: convert_defs convert_between_scalar table_json_tables table_json_truthy
          scenario_rules_ok scenario_table_def)
  then show ?thesis
    by (simp add: scenario_rules_def last_match_def rule_matches_def rule_value_def)
qed

section \<open>Malformed rules\<close>

text \<open>
  Claim C7, as amended. In every conversion between sensors, for a scalar and for an
  array, a rule whose flag is false while both end points are present makes the call
  raise \<^verbatim>\<open>RuntimeError\<close>, when the rules before it are well formed.
\<close>

theorem malformed_rule_both_present:
  "list_all rule_ok pre \<and> \<not> rule_inner r \<and> rule_lo r \<noteq> None \<and> rule_hi r \<noteq> None \<and>
   ts \<noteq> PyNone \<longrightarrow>
     convert_rs_to_dvs (table_json (T\<lparr>tab_rs_to_dvs := pre @ r # post\<rparr>)) ts
       = Inl RuntimeError \<and>
     convert_lidar_to_dvs (table_json (T\<lparr>tab_lidar_to_dvs := pre @ r # post\<rparr>)) ts
       = Inl RuntimeError \<and>
     convert_dvs_to_rs (table_json (T\<lparr>tab_dvs_to_rs := pre @ r # post\<rparr>)) ts
       = Inl RuntimeError \<and>
     convert_dvs_to_lidar (table_json (T\<lparr>tab_dvs_to_lidar := pre @ r # post\<rparr>)) ts
       = Inl RuntimeError"
  by (simp add: convert_defs convert_between_malformed table_json_tables table_json_truthy)

theorem malformed_rule_both_present_witness:
  "list_all rule_ok scenario_rules \<and> \<not> rule_inner both_present_rule \<and>
   rule_lo both_present_rule \<noteq> None \<and> rule_hi both_present_rule \<noteq> None \<and>
   convert_rs_to_dvs
     (table_json (scenario_table\<lparr>tab_rs_to_dvs := scenario_rules @ [both_present_rule]\<rparr>))
     (PyFloat (Fin 5)) = Inl RuntimeError \<and>
   convert_dvs_to_lidar
     (table_json (scenario_table\<lparr>tab_dvs_to_lidar := scenario_rules @ [both_present_rule]\<rparr>))
     (NdArray [Fin 5, Fin 12]) = Inl RuntimeError"
  using malformed_rule_both_present
          [where pre = scenario_rules and r = both_present_rule and ts = "PyFloat (Fin 5)"
             and T = scenario_table and post = "[]"]
        malformed_rule_both_present
          [where pre = scenario_rules and r = both_present_rule
             and ts = "NdArray [Fin 5, Fin 12]" and T = scenario_table and post = "[]"]
  by (simp add: scenario_rules_ok both_present_rule_def)

text \<open>
  Claim C7 as stated fails for a rule whose flag is false with both end points absent: the
  test \<^verbatim>\<open>interval[0] is None\<close> succeeds, the timestamp is compared with \<^verbatim>\<open>None\<close>, and
  the scalar call raises \<^verbatim>\<open>TypeError\<close>, not \<^verbatim>\<open>RuntimeError\<close>.
\<close>

theorem both_absent_counterexample:
  "convert_rs_to_dvs (table_json (scenario_table\<lparr>tab_rs_to_dvs := [both_absent_rule]\<rparr>))
     (PyFloat (Fin 5)) = Inl TypeError"
  by (simp add: convert_defs convert_between_def table_json_tables table_json_truthy
        full_like_or_none_def rule_step_def rule_indexes_def rule_json_fields both_absent_rule_def)

section \<open>The store\<close>

text \<open>
  Claim C8. Before any load the store holds \<^verbatim>\<open>None\<close>, and each of the ten conversions
  raises \<^verbatim>\<open>RuntimeError\<close> for every argument. After \<^verbatim>\<open>load_from_json_string\<close> of a
  document that parses to a valid table, the same call succeeds, for a float and for an
  array.
\<close>

theorem load_then_convert:
  "list_all (\<lambda>f. f TIMECONVS_initial ts = Inl RuntimeError) conversions \<and>
   (loads json_string = Inr (table_json T) \<and> valid_table T \<and> ts \<noteq> PyNone \<longrightarrow>
      fst (load_from_json_string loads json_string TIMECONVS_initial) = Inr () \<and>
      list_all (\<lambda>f. succeeds (f (snd (load_from_json_string loads json_string
                                        TIMECONVS_initial)) ts)) conversions)"
proof -
  have before: "list_all (\<lambda>f. f TIMECONVS_initial ts = Inl RuntimeError) conversions"
    by (simp add: not_initialized TIMECONVS_initial_def)
  have after: "list_all (\<lambda>f. succeeds (f (snd (load_from_json_string loads json_string
                                                TIMECONVS_initial)) ts)) conversions"
    if "loads json_string = Inr (table_json T)" "valid_table T" "ts \<noteq> PyNone"
    using that by (simp add: load_from_json_string_def valid_table_succeeds)
  show ?thesis
    using before after by (simp add: load_from_json_string_def)
qed

theorem load_then_convert_witness:
  "valid_table scenario_table \<and>
   list_all (\<lambda>f. f TIMECONVS_initial (PyFloat (Fin 5)) = Inl RuntimeError) conversions \<and>
   list_all (\<lambda>f. succeeds (f (snd (load_from_json_string (\<lambda>s. Inr (table_json scenario_table))
                                     ''timeconvs'' TIMECONVS_initial)) (PyFloat (Fin 5))))
     conversions"
  using load_then_convert [where loads = "\<lambda>s. Inr (table_json scenario_table)"
                             and json_string = "''timeconvs''" and T = scenario_table
                             and ts = "PyFloat (Fin 5)"]
  by (simp add: scenario_table_valid)

text \<open>
  Claim C9. If a load succeeds with a document that is falsy in Python (the empty object,
  the empty array, \<^verbatim>\<open>null\<close>), the store holds that document, and each of the ten
  conversions still raises \<^verbatim>\<open>RuntimeError\<close>, as it does before any load: the guard
  \<^verbatim>\<open>if not TIMECONVS\<close> tests the truth value of the store, not its presence.
\<close>

theorem falsy_document:
  "(loads json_string = Inr doc \<and> \<not> truthy doc \<longrightarrow>
      fst (load_from_json_string loads json_string st) = Inr () \<and>
      snd (load_from_json_string loads json_string st) = doc \<and>
      list_all (\<lambda>f. f (snd (load_from_json_string loads json_string st)) ts = Inl RuntimeError \<and>
                     f (snd (load_from_json_string loads json_string st)) ts
                       = f TIMECONVS_initial ts) conversions) \<and>
   \<not> truthy (JObj []) \<and> \<not> truthy (JArr []) \<and> \<not> truthy JNull"
proof -
  have before: "list_all (\<lambda>f. f TIMECONVS_initial ts = Inl RuntimeError) conversions"
    by (simp add: not_initialized TIMECONVS_initial_def)
  have after: "list_all (\<lambda>f. f doc ts = Inl RuntimeError) conversions" if "\<not> truthy doc"
    using that by (rule not_initialized)
  show ?thesis
    using before after
    by (auto simp: load_from_json_string_def list_all_iff)
qed

theorem falsy_document_witness:
  "\<not> truthy (JObj []) \<and>
   snd (load_from_json_string (\<lambda>s. if s = ''{}'' then Inr (JObj []) else Inl ValueError)
          ''{}'' (table_json scenario_table)) = JObj [] \<and>
   list_all (\<lambda>f. f (snd (load_from_json_string
                            (\<lambda>s. if s = ''{}'' then Inr (JObj []) else Inl ValueError)
                            ''{}'' (table_json scenario_table))) (PyFloat (Fin 5))
                  = Inl RuntimeError) conversions"
  using falsy_document [where loads = "\<lambda>s. if s = ''{}'' then Inr (JObj []) else Inl ValueError"
                          and json_string = "''{}''" and doc = "JObj []"
                          and st = "table_json scenario_table" and ts = "PyFloat (Fin 5)"]
  by (simp add: list_all_iff)

section \<open>A zero scale\<close>

text \<open>
  Claim C10, as amended. For each of the three sensors, if the scale of the sensor is
  zero, the conversion from relative to native raises \<^verbatim>\<open>ZeroDivisionError\<close> for every
  scalar float; for an array it raises nothing and returns the elementwise numpy
  quotients (\<^verbatim>\<open>inf\<close>, \<^verbatim>\<open>-inf\<close> or \<^verbatim>\<open>nan\<close>). The conversion from native to relative is
  unaffected.
\<close>

theorem zero_scale_division:
  "(dvs_scale T = 0 \<longrightarrow>
      dvs_relative_to_native (table_json T) (PyFloat x) = Inl ZeroDivisionError \<and>
      dvs_relative_to_native (table_json T) (NdArray xs) =
        Inr (NdArray (map (\<lambda>x. fl_div (fl_add x (dvs_offset T)) 0) xs)) \<and>
      dvs_native_to_relative (table_json T) (PyFloat x) =
        Inr (PyFloat (fl_sub (fl_mul x 0) (dvs_offset T)))) \<and>
   (lidar_scale T = 0 \<longrightarrow>
      lidar_relative_to_native (table_json T) (PyFloat x) = Inl ZeroDivisionError \<and>
      lidar_relative_to_native (table_json T) (NdArray xs) =
        Inr (NdArray (map (\<lambda>x. fl_div (fl_add x (lidar_offset T)) 0) xs)) \<and>
      lidar_native_to_relative (table_json T) (PyFloat x) =
        Inr (PyFloat (fl_sub (fl_mul x 0) (lidar_offset T)))) \<and>
   (rs_scale T = 0 \<longrightarrow>
      rs_relative_to_native (table_json T) (PyFloat x) = Inl ZeroDivisionError \<and>
      rs_relative_to_native (table_json T) (NdArray xs) =
        Inr (NdArray (map (\<lambda>x. fl_div (fl_add x (rs_offset T)) 0) xs)) \<and>
      rs_native_to_relative (table_json T) (PyFloat x) =
        Inr (PyFloat (fl_sub (fl_mul x 0) (rs_offset T))))"
  by (simp add: affine_defs affine_on_table table_json_scalars)

theorem zero_scale_division_witness:
  "dvs_scale (scenario_table\<lparr>dvs_scale := 0\<rparr>) = 0 \<and>
   dvs_relative_to_native (table_json (scenario_table\<lparr>dvs_scale := 0\<rparr>)) (PyFloat (Fin 5))
     = Inl ZeroDivisionError \<and>
   dvs_native_to_relative (table_json (scenario_table\<lparr>dvs_scale := 0\<rparr>)) (PyFloat (Fin 5))
     = Inr (PyFloat (Fin (- 3)))"
  using zero_scale_division [of "scenario_table\<lparr>dvs_scale := 0\<rparr>" "Fin 5" "[]"]
  by (simp add: scenario_table_def)

text \<open>
  Claim C10 as stated (every input fails) does not hold for an array: with a zero scale
  the array \<^verbatim>\<open>[5.0]\<close> is converted to \<^verbatim>\<open>[inf]\<close>.
\<close>

theorem zero_scale_array_counterexample:
  "dvs_relative_to_native (table_json (scenario_table\<lparr>dvs_scale := 0\<rparr>)) (NdArray [Fin 5])
     = Inr (NdArray [PInf])"
  by (simp add: affine_defs affine_on_table table_json_scalars)
     (simp add: scenario_table_def)

end
